theory Spec2Isabelle
  imports Main
begin

section \<open>HTTP requests, responses and exceptions\<close>

text \<open>
  A request carries its method, the query string (\<open>request.GET\<close>), the form body
  (\<open>request.POST\<close>), the WSGI scheme and the host. A \<open>QueryDict\<close> is read with
  \<open>.get\<close> only, so it is a partial map from names to values.
\<close>

type_synonym querydict = "string \<rightharpoonup> string"

record request =
  req_method :: string
  req_GET :: querydict
  req_POST :: querydict
  wsgi_url_scheme :: "string option"
  req_host :: string

text \<open>A plain \<open>HttpResponse\<close>: status code, content type and body.\<close>

record response =
  status_code :: nat
  content_type :: string
  content :: string

text \<open>The exceptions a view can raise instead of returning a response.\<close>

datatype exn =
    Http404
  | DoesNotExist
  | MultipleObjectsReturned
  | IntegrityError
  | KeyError
  | ValueError
  | ValidationError "string list"

text \<open>
  An exception that leaves a view is turned into a response by the framework:
  \<open>Http404\<close> into status 404, any other exception into status 500.
\<close>

fun exn_status :: "exn \<Rightarrow> nat" where
  "exn_status Http404 = 404"
| "exn_status _ = 500"

definition http_status :: "exn + response \<Rightarrow> nat" where
  "http_status r = (case r of Inl e \<Rightarrow> exn_status e | Inr resp \<Rightarrow> status_code resp)"

text \<open>What \<open>require_http_methods\<close> answers to a method outside its list.\<close>

definition HttpResponseNotAllowed :: response where
  "HttpResponseNotAllowed = \<lparr>status_code = 405, content_type = ''text/html'', content = []\<rparr>"

definition newline :: string where
  "newline = [CHR 0x0A]"


section \<open>Controller: configurations and the helpers of \<open>utils\<close>\<close>

text \<open>
  The controller views read \<open>config.key\<close>, \<open>config.status\<close>, \<open>config.checksum\<close>
  and format \<open>id\<close> and \<open>key\<close> of a created configuration; \<open>register\<close> passes
  \<open>name\<close> and \<open>backend\<close>. The table of configurations is a list of rows, looked up
  by primary key.
\<close>

record config =
  c_id :: string
  c_name :: string
  c_backend :: string
  c_key :: string
  c_status :: string

text \<open>
  Modelled from the spec: \<open>Config.STATUS\<close>, the choices of the status field, declared in
  \<open>models\<close>. The spec gives the status set as modified, applied, error; each choice is
  a (value, label) pair and the views read the first component.
\<close>

definition Config_STATUS :: "(string \<times> string) list" where
  "Config_STATUS =
     [(''modified'', ''modified''), (''applied'', ''applied''), (''error'', ''error'')]"

text \<open>
  The settings module read by the controller: the registration switch, the shared secret
  and the list of (path, name) backends.
\<close>

record settings =
  REGISTRATION_ENABLED :: bool
  SHARED_SECRET :: string
  BACKENDS :: "(string \<times> string) list"

text \<open>
  Modelled from the spec: \<open>ControllerResponse\<close> of \<open>utils\<close>, the plain response class of
  the controller. The views pass the body, the content type and, for register, the
  status; the status is 200 when none is passed.
\<close>

definition ControllerResponse :: "string \<Rightarrow> string \<Rightarrow> nat option \<Rightarrow> response" where
  "ControllerResponse body ctype st =
     \<lparr>status_code = (case st of None \<Rightarrow> 200 | Some s \<Rightarrow> s),
      content_type = ctype, content = body\<rparr>"

text \<open>
  The second component of a required parameter in the views is the device key (one
  string), \<open>None\<close> (any value will do) or a list of allowed values.
\<close>

datatype allowed = AnyValue | Exactly string | OneOf "string list"

fun permits :: "allowed \<Rightarrow> string \<Rightarrow> bool" where
  "permits AnyValue v = True"
| "permits (Exactly a) v = (v = a)"
| "permits (OneOf as) v = (v \<in> set as)"

text \<open>
  Modelled from the spec: \<open>forbid_unallowed\<close> of \<open>utils\<close>, which is not among the
  sources. The spec: a missing or incorrect key or secret is always answered with 403,
  report-status answers 403 to a bad key or status, register answers 403 to a bad
  secret or backend. It returns \<open>None\<close> for a legitimate request and the 403 response
  otherwise.
\<close>

definition forbid_unallowed :: "querydict \<Rightarrow> string \<Rightarrow> allowed \<Rightarrow> response option" where
  "forbid_unallowed params param allowed_values =
     (case params param of
        None \<Rightarrow> Some (ControllerResponse [] ''text/plain'' (Some 403))
      | Some v \<Rightarrow>
          if permits allowed_values v then None
          else Some (ControllerResponse [] ''text/plain'' (Some 403)))"

text \<open>
  Modelled from the spec: \<open>get_config_or_404\<close> of \<open>utils\<close>. The spec: an unknown
  device is answered with 404. The row with the primary key is returned, and
  \<open>Http404\<close> is raised when there is none.
\<close>

definition get_config_or_404 :: "config list \<Rightarrow> string \<Rightarrow> exn + config" where
  "get_config_or_404 db pk =
     (case find (\<lambda>c. c_id c = pk) db of None \<Rightarrow> Inl Http404 | Some c \<Rightarrow> Inr c)"

text \<open>
  Modelled from the spec: \<open>send_config\<close> of \<open>utils\<close>. The spec: download answers 200
  with the compiled archive as an octet stream. The compiler is a parameter.
\<close>

definition send_config :: "(config \<Rightarrow> string) \<Rightarrow> config \<Rightarrow> request \<Rightarrow> response" where
  "send_config generate cfg request =
     \<lparr>status_code = 200, content_type = ''application/octet-stream'', content = generate cfg\<rparr>"

text \<open>\<open>config.save()\<close> on a row read from the table writes the row with its primary key.\<close>

definition config_save :: "config list \<Rightarrow> config \<Rightarrow> config list" where
  "config_save db cfg = map (\<lambda>c. if c_id c = c_id cfg then cfg else c) db"

text \<open>
  Modelled from the spec: the device of the data model, declared in \<open>models\<close>. The spec:
  a device has an identity, a name and a key, and owns exactly one configuration. The
  registry holds the table of devices beside the table of configurations.
\<close>

record device =
  d_id :: string
  d_name :: string
  d_key :: string

record registry =
  devices :: "device list"
  configs :: "config list"

text \<open>
  Modelled from the spec: the generation of an identity and of a key, done by the model in
  \<open>models\<close>. The spec says only that they are generated, that the key is unique and that
  it has no whitespace, dot or slash. The generator is therefore a function of the values
  in use: the first hexadecimal numeral, counting from zero, that none of them equals.
  Among the first \<open>n + 1\<close> numerals one is free of \<open>n\<close> values.
\<close>

definition hex_digit :: "nat \<Rightarrow> char" where
  "hex_digit d = ''0123456789abcdef'' ! d"

fun hex :: "nat \<Rightarrow> string" where
  "hex n = (if n < 16 then [hex_digit n] else hex (n div 16) @ [hex_digit (n mod 16)])"

declare hex.simps [simp del]

definition first_unused :: "string list \<Rightarrow> string" where
  "first_unused used =
     (case find (\<lambda>k. k \<notin> set used) (map hex [0..<Suc (length used)]) of
        Some k \<Rightarrow> k
      | None \<Rightarrow> hex (Suc (length used)))"

text \<open>
  Modelled from the spec: \<open>Config.objects.create\<close>, whose model is declared in \<open>models\<close>.
  The spec: registration creates a new pair of device and configuration with a freshly
  generated key; the status of a new configuration is modified; the key is unique. The
  device takes the name, the configuration the backend; the object that the view gets
  back carries the identity and the key. A clash with a stored identity or key violates
  the uniqueness constraints of the tables.
\<close>

definition Config_objects_create ::
  "registry \<Rightarrow> string \<Rightarrow> string \<Rightarrow> exn + config \<times> registry" where
  "Config_objects_create reg name backend =
     (let ids = map d_id (devices reg) @ map c_id (configs reg);
          keys = map d_key (devices reg) @ map c_key (configs reg);
          uuid = first_unused ids;
          key = first_unused keys;
          dev = \<lparr>d_id = uuid, d_name = name, d_key = key\<rparr>;
          cfg = \<lparr>c_id = uuid, c_name = name, c_backend = backend, c_key = key,
                 c_status = ''modified''\<rparr>
      in if uuid \<in> set ids \<or> key \<in> set keys
         then Inl IntegrityError
         else Inr (cfg, reg\<lparr>devices := devices reg @ [dev],
                           configs := configs reg @ [cfg]\<rparr>))"


section \<open>Controller views\<close>

text \<open>
  \<open>checksum\<close>: GET only; the configuration is looked up first, then the key is checked,
  then the checksum is returned as plain text. \<open>config.checksum\<close> is computed by the
  model, a parameter here.
\<close>

definition checksum :: "(config \<Rightarrow> string) \<Rightarrow> config list \<Rightarrow> request \<Rightarrow> string \<Rightarrow> exn + response" where
  "checksum checksum_of db request pk =
     (if req_method request \<notin> set [''GET''] then Inr HttpResponseNotAllowed
      else case get_config_or_404 db pk of
        Inl e \<Rightarrow> Inl e
      | Inr cfg \<Rightarrow>
          (case forbid_unallowed (req_GET request) ''key'' (Exactly (c_key cfg)) of
             Some bad_response \<Rightarrow> Inr bad_response
           | None \<Rightarrow> Inr (ControllerResponse (checksum_of cfg) ''text/plain'' None)))"

definition download_config ::
  "(config \<Rightarrow> string) \<Rightarrow> config list \<Rightarrow> request \<Rightarrow> string \<Rightarrow> exn + response" where
  "download_config generate db request pk =
     (if req_method request \<notin> set [''GET''] then Inr HttpResponseNotAllowed
      else case get_config_or_404 db pk of
        Inl e \<Rightarrow> Inl e
      | Inr cfg \<Rightarrow>
          (case forbid_unallowed (req_GET request) ''key'' (Exactly (c_key cfg)) of
             Some bad_response \<Rightarrow> Inr bad_response
           | None \<Rightarrow> Inr (send_config generate cfg request)))"

text \<open>
  The loop of \<open>report_status\<close> and \<open>register\<close> over the required parameters: the first
  bad response is returned, \<open>None\<close> when every parameter passes.
\<close>

fun check_required_params :: "querydict \<Rightarrow> (string \<times> allowed) list \<Rightarrow> response option" where
  "check_required_params params [] = None"
| "check_required_params params ((key, val) # rest) =
     (case forbid_unallowed params key val of
        Some bad_response \<Rightarrow> Some bad_response
      | None \<Rightarrow> check_required_params params rest)"

text \<open>
  \<open>report_status\<close>: POST only. The result is the response (or the exception) and the
  table afterwards; the table changes only through \<open>config.save()\<close>.
\<close>

definition report_status :: "config list \<Rightarrow> request \<Rightarrow> string \<Rightarrow> (exn + response) \<times> config list" where
  "report_status db request pk =
     (if req_method request \<notin> set [''POST''] then (Inr HttpResponseNotAllowed, db)
      else case get_config_or_404 db pk of
        Inl e \<Rightarrow> (Inl e, db)
      | Inr cfg \<Rightarrow>
          (let allowed_status = map fst Config_STATUS;
               required_params = [(''key'', Exactly (c_key cfg)),
                                  (''status'', OneOf allowed_status)]
           in case check_required_params (req_POST request) required_params of
                Some bad_response \<Rightarrow> (Inr bad_response, db)
              | None \<Rightarrow>
                  (case req_POST request ''status'' of
                     None \<Rightarrow> (Inl IntegrityError, db)
                   | Some s \<Rightarrow>
                       (let cfg' = cfg\<lparr>c_status := s\<rparr>
                        in (Inr (ControllerResponse
                                   (''report-result: success'' @ newline @
                                    ''current-status: '' @ c_status cfg' @ newline)
                                   ''text/plain'' None),
                            config_save db cfg')))))"

text \<open>
  \<open>register\<close>: POST only. The result is the response (or the exception) and the
  registry afterwards.
\<close>

definition register ::
  "settings \<Rightarrow> registry \<Rightarrow> request \<Rightarrow> (exn + response) \<times> registry" where
  "register st reg request =
     (if req_method request \<notin> set [''POST''] then (Inr HttpResponseNotAllowed, reg)
      else
        let allowed_backends = map fst (BACKENDS st);
            required_params = [(''secret'', Exactly (SHARED_SECRET st)),
                               (''name'', AnyValue),
                               (''backend'', OneOf allowed_backends)]
        in case check_required_params (req_POST request) required_params of
             Some bad_response \<Rightarrow> (Inr bad_response, reg)
           | None \<Rightarrow>
               (case (req_POST request ''name'', req_POST request ''backend'') of
                  (Some name, Some backend) \<Rightarrow>
                    (case Config_objects_create reg name backend of
                       Inl e \<Rightarrow> (Inl e, reg)
                     | Inr (cfg, reg') \<Rightarrow>
                         (Inr (ControllerResponse
                                 (''registration-result: success'' @ newline @
                                  ''uuid: '' @ c_id cfg @ newline @
                                  ''key: '' @ c_key cfg @ newline)
                                 ''text/plain'' (Some 201)),
                          reg'))
                | _ \<Rightarrow> (Inl IntegrityError, reg)))"

text \<open>The view is defined only under \<open>if REGISTRATION_ENABLED\<close>.\<close>

definition register_view ::
  "settings \<Rightarrow> (registry \<Rightarrow> request \<Rightarrow> (exn + response) \<times> registry) option" where
  "register_view st = (if REGISTRATION_ENABLED st then Some (register st) else None)"


section \<open>Template API: data\<close>

text \<open>
  The API views are base classes: the models and serializers are attributes that the
  concrete views set. The models appear here with the fields that the views read; the
  keyword arguments that a view only passes on are one opaque payload.
\<close>

record ca =
  ca_id :: string
  ca_payload :: string

record cert =
  cert_id :: string
  cert_ca :: ca
  cert_payload :: string

record vpn =
  vpn_id :: string
  vpn_name :: string
  vpn_ca :: ca
  vpn_cert :: cert
  vpn_payload :: string

record template =
  t_id :: string
  t_name :: string
  t_description :: string
  t_sharing :: string
  t_key :: string
  t_type :: string
  t_vpn :: "vpn option"

text \<open>
  The value of \<open>request.POST.get('subscribe', False)\<close>, as the view holds it: the
  posted string, or the default \<open>False\<close>.
\<close>

datatype flag = PyFalse | Posted string

text \<open>
  The \<open>subscribe\<close> field of a subscription is a boolean field. \<open>to_python\<close> of the
  field, which both \<open>full_clean\<close> and \<open>save()\<close> run on the value: \<open>False\<close> and the
  strings that stand for a boolean give the boolean, any other string raises
  \<open>ValidationError\<close> (here the message, with plain quotes around the value).
\<close>

definition to_python :: "flag \<Rightarrow> string list + bool" where
  "to_python v =
     (case v of
        PyFalse \<Rightarrow> Inr False
      | Posted s \<Rightarrow>
          if s \<in> set [''t'', ''True'', ''1''] then Inr True
          else if s \<in> set [''f'', ''False'', ''0''] then Inr False
          else Inl [[CHR 0x22] @ s @ [CHR 0x22] @ '' value must be either True or False.''])"

record template_subscription =
  ts_template :: string
  ts_subscriber :: "string option"
  ts_subscribe :: bool

text \<open>A call of the background task \<open>subscribe.delay\<close>, kept in a queue.\<close>

record task =
  task_template_id :: string
  task_import_url :: "string option"
  task_subscriber_url :: string
  task_subscribe :: bool

text \<open>The tables that the template import touches, and the task queue.\<close>

record import_db =
  cas :: "ca list"
  certs :: "cert list"
  vpns :: "vpn list"
  templates :: "template list"
  tasks :: "task list"

text \<open>
  The dictionary returned by \<open>get_remote_template_data\<close>: \<open>data['type']\<close>,
  \<open>data['vpn']\<close> with its \<open>'ca'\<close> and \<open>'cert'\<close> dictionaries, and the remaining
  keyword arguments of the template.
\<close>

record cert_data =
  cd_id :: string
  cd_payload :: string

record vpn_data =
  vd_id :: string
  vd_name :: string
  vd_ca :: ca
  vd_cert :: cert_data
  vd_payload :: string

record template_data =
  td_type :: string
  td_vpn :: "vpn_data option"
  td_id :: string
  td_name :: string
  td_description :: string
  td_sharing :: string
  td_key :: string

text \<open>
  \<open>full_clean\<close> of each model is declared with the models, which the concrete views
  supply: a parameter. \<open>Some msgs\<close> stands for \<open>ValidationError\<close> raised with the
  messages \<open>msgs\<close>, \<open>None\<close> for a clean instance. Validation reads the tables (the
  uniqueness checks).
\<close>

record validation =
  ca_full_clean :: "import_db \<Rightarrow> ca \<Rightarrow> string list option"
  cert_full_clean :: "import_db \<Rightarrow> cert \<Rightarrow> string list option"
  vpn_full_clean :: "import_db \<Rightarrow> vpn \<Rightarrow> string list option"
  template_full_clean :: "import_db \<Rightarrow> template \<Rightarrow> string list option"

text \<open>The data of a REST framework \<open>Response\<close>, and the response itself.\<close>

datatype json = JNull | JString string | JArray "json list" | JObject "(string \<times> json) list"

record api_response =
  api_status :: nat
  api_data :: json

definition Response :: "json \<Rightarrow> nat option \<Rightarrow> api_response" where
  "Response data st = \<lparr>api_status = (case st of None \<Rightarrow> 200 | Some s \<Rightarrow> s), api_data = data\<rparr>"

definition api_http_status :: "exn + api_response \<Rightarrow> nat" where
  "api_http_status r = (case r of Inl e \<Rightarrow> exn_status e | Inr resp \<Rightarrow> api_status resp)"

text \<open>
  \<open>Model.objects.get(**kwargs)\<close> over a table: the one row that matches, and an
  exception when none or several do. \<open>objects_get_index\<close> returns the position of the row,
  for a row that is written back with \<open>save()\<close>.
\<close>

definition objects_get :: "('a \<Rightarrow> bool) \<Rightarrow> 'a list \<Rightarrow> exn + 'a" where
  "objects_get P rows =
     (case filter P rows of
        [] \<Rightarrow> Inl DoesNotExist
      | [x] \<Rightarrow> Inr x
      | _ \<Rightarrow> Inl MultipleObjectsReturned)"

definition objects_get_index :: "('a \<Rightarrow> bool) \<Rightarrow> 'a list \<Rightarrow> exn + nat" where
  "objects_get_index P rows =
     (case filter (\<lambda>i. P (rows ! i)) [0..<length rows] of
        [] \<Rightarrow> Inl DoesNotExist
      | [i] \<Rightarrow> Inr i
      | _ \<Rightarrow> Inl MultipleObjectsReturned)"

text \<open>\<open>get_object_or_404\<close> raises \<open>Http404\<close> where \<open>get\<close> raises \<open>DoesNotExist\<close>.\<close>

definition get_object_or_404 :: "('a \<Rightarrow> bool) \<Rightarrow> 'a list \<Rightarrow> exn + 'a" where
  "get_object_or_404 P rows =
     (case objects_get P rows of
        Inl DoesNotExist \<Rightarrow> Inl Http404
      | r \<Rightarrow> r)"

text \<open>
  \<open>instance.save()\<close> of an instance built with its primary key: the row with that key
  is overwritten, and a new row is added when there is none.
\<close>

definition save_row :: "('a \<Rightarrow> string) \<Rightarrow> 'a list \<Rightarrow> 'a \<Rightarrow> 'a list" where
  "save_row pk_of rows x =
     (if pk_of x \<in> set (map pk_of rows)
      then map (\<lambda>r. if pk_of r = pk_of x then x else r) rows
      else rows @ [x])"

text \<open>Python truth of \<open>request.GET.get(...)\<close>: \<open>None\<close> and the empty string are false.\<close>

fun truthy :: "string option \<Rightarrow> bool" where
  "truthy None = False"
| "truthy (Some v) = (v \<noteq> [])"

text \<open>
  The lookup \<open>icontains\<close>: the value contains the argument as a substring, letter case
  ignored. Letters are ASCII here.
\<close>

definition ascii_lower :: "char \<Rightarrow> char" where
  "ascii_lower c =
     (case map_of (zip ''ABCDEFGHIJKLMNOPQRSTUVWXYZ'' ''abcdefghijklmnopqrstuvwxyz'') c of
        None \<Rightarrow> c
      | Some l \<Rightarrow> l)"

fun contains :: "string \<Rightarrow> string \<Rightarrow> bool" where
  "contains [] needle = (needle = [])"
| "contains (c # cs) needle =
     (take (length needle) (c # cs) = needle \<or> contains cs needle)"

definition icontains :: "string \<Rightarrow> string \<Rightarrow> bool" where
  "icontains val arg = contains (map ascii_lower val) (map ascii_lower arg)"


section \<open>Template API: views\<close>

text \<open>
  \<open>BaseTemplateDetailView.get\<close>: the lookup options are the primary key and public
  sharing; a key in the query string that is true in Python replaces them by the key
  and \<open>secret_key\<close> sharing.
\<close>

record lookup_opts =
  opt_pk :: string
  opt_sharing :: string
  opt_key :: "string option"

definition matches_opts :: "lookup_opts \<Rightarrow> template \<Rightarrow> bool" where
  "matches_opts opts t =
     (t_id t = opt_pk opts \<and> t_sharing t = opt_sharing opts \<and>
      (case opt_key opts of None \<Rightarrow> True | Some k \<Rightarrow> t_key t = k))"

definition BaseTemplateDetailView_get ::
  "(template \<Rightarrow> json) \<Rightarrow> template list \<Rightarrow> request \<Rightarrow> string \<Rightarrow> exn + api_response" where
  "BaseTemplateDetailView_get template_detail_serializer template_model request uuid =
     (let key = req_GET request ''key'';
          opts = \<lparr>opt_pk = uuid, opt_sharing = ''public'', opt_key = None\<rparr>;
          opts = (if truthy key
                  then opts\<lparr>opt_key := key, opt_sharing := ''secret_key''\<rparr>
                  else opts)
      in case get_object_or_404 (matches_opts opts) template_model of
           Inl e \<Rightarrow> Inl e
         | Inr template \<Rightarrow> Inr (Response (template_detail_serializer template) None))"

text \<open>\<open>BaseListTemplateView.get_queryset\<close> and \<open>get\<close>.\<close>

definition get_queryset :: "template list \<Rightarrow> request \<Rightarrow> template list" where
  "get_queryset queryset request =
     (let name = req_GET request ''name'';
          des = req_GET request ''des'';
          qs = filter (\<lambda>t. t_sharing t = ''public'') queryset
      in if truthy name \<and> des = None
         then filter (\<lambda>t. icontains (t_name t) (the name)) qs
         else if truthy des \<and> name = None
         then filter (\<lambda>t. icontains (t_description t) (the des)) qs
         else if name \<noteq> None \<and> des \<noteq> None
         then filter (\<lambda>t. icontains (t_description t) (the des) \<and>
                           icontains (t_name t) (the name)) qs
         else qs)"

definition BaseListTemplateView_get ::
  "(template \<Rightarrow> json) \<Rightarrow> template list \<Rightarrow> request \<Rightarrow> api_response" where
  "BaseListTemplateView_get list_serializer queryset request =
     (let data = get_queryset queryset request
      in Response (JArray (map list_serializer data)) None)"

text \<open>
  \<open>BaseCreateTemplateView\<close>. The three \<open>try\<close> blocks of the vpn branch save the
  instance, or on \<open>ValidationError\<close> fetch the stored one; an exception of the fetch
  leaves the view. Each returns the instance and the tables.
\<close>

definition cert_model :: "cert_data \<Rightarrow> ca \<Rightarrow> cert" where
  "cert_model d c = \<lparr>cert_id = cd_id d, cert_ca = c, cert_payload = cd_payload d\<rparr>"

definition vpn_model :: "vpn_data \<Rightarrow> ca \<Rightarrow> cert \<Rightarrow> vpn" where
  "vpn_model d c crt =
     \<lparr>vpn_id = vd_id d, vpn_name = vd_name d, vpn_ca = c, vpn_cert = crt,
      vpn_payload = vd_payload d\<rparr>"

definition template_model_of :: "template_data \<Rightarrow> vpn option \<Rightarrow> template" where
  "template_model_of d v =
     \<lparr>t_id = td_id d, t_name = td_name d, t_description = td_description d,
      t_sharing = td_sharing d, t_key = td_key d, t_type = td_type d, t_vpn = v\<rparr>"

definition save_or_get_ca :: "validation \<Rightarrow> import_db \<Rightarrow> ca \<Rightarrow> exn + ca \<times> import_db" where
  "save_or_get_ca val db c =
     (case ca_full_clean val db c of
        None \<Rightarrow> Inr (c, db\<lparr>cas := save_row ca_id (cas db) c\<rparr>)
      | Some msgs \<Rightarrow>
          (case objects_get (\<lambda>r. ca_id r = ca_id c) (cas db) of
             Inl e \<Rightarrow> Inl e
           | Inr stored \<Rightarrow> Inr (stored, db)))"

definition save_or_get_cert :: "validation \<Rightarrow> import_db \<Rightarrow> cert \<Rightarrow> exn + cert \<times> import_db" where
  "save_or_get_cert val db c =
     (case cert_full_clean val db c of
        None \<Rightarrow> Inr (c, db\<lparr>certs := save_row cert_id (certs db) c\<rparr>)
      | Some msgs \<Rightarrow>
          (case objects_get (\<lambda>r. cert_id r = cert_id c) (certs db) of
             Inl e \<Rightarrow> Inl e
           | Inr stored \<Rightarrow> Inr (stored, db)))"

definition save_or_get_vpn :: "validation \<Rightarrow> import_db \<Rightarrow> vpn \<Rightarrow> exn + vpn \<times> import_db" where
  "save_or_get_vpn val db v =
     (case vpn_full_clean val db v of
        None \<Rightarrow> Inr (v, db\<lparr>vpns := save_row vpn_id (vpns db) v\<rparr>)
      | Some msgs \<Rightarrow>
          (case objects_get (\<lambda>r. vpn_name r = vpn_name v) (vpns db) of
             Inl e \<Rightarrow> Inl e
           | Inr stored \<Rightarrow> Inr (stored, db)))"

text \<open>\<open>'{0}'.format(x)\<close> of an optional string writes \<open>None\<close> for a missing one.\<close>

definition format_opt :: "string option \<Rightarrow> string" where
  "format_opt v = (case v of None \<Rightarrow> ''None'' | Some s \<Rightarrow> s)"

definition save_template ::
  "validation \<Rightarrow> import_db \<Rightarrow> template \<Rightarrow> string option \<Rightarrow> request \<Rightarrow> exn + import_db" where
  "save_template val db template import_url request =
     (case template_full_clean val db template of
        Some msgs \<Rightarrow> Inl (ValidationError msgs)
      | None \<Rightarrow>
          (let db1 = db\<lparr>templates := save_row t_id (templates db) template\<rparr>;
               subscriber_url = format_opt (wsgi_url_scheme request) @ ''://'' @ req_host request
           in Inr (db1\<lparr>tasks := tasks db1 @
                      [\<lparr>task_template_id = t_id template, task_import_url = import_url,
                        task_subscriber_url = subscriber_url, task_subscribe = True\<rparr>]\<rparr>)))"

text \<open>
  The two \<open>try\<close> blocks around \<open>save_template\<close> are the same: a \<open>ValidationError\<close>
  becomes the 500 response with the messages under \<open>template_errors\<close>; otherwise the
  view goes on to \<open>Response(status=200)\<close>.
\<close>

definition try_save_template ::
  "validation \<Rightarrow> import_db \<Rightarrow> template \<Rightarrow> string option \<Rightarrow> request \<Rightarrow>
     (exn + api_response) \<times> import_db" where
  "try_save_template val db template import_url request =
     (case save_template val db template import_url request of
        Inl (ValidationError messages) \<Rightarrow>
          (Inr (Response (JObject [(''template_errors'', JArray (map JString messages))])
                  (Some 500)), db)
      | Inl e \<Rightarrow> (Inl e, db)
      | Inr db' \<Rightarrow> (Inr (Response JNull (Some 200)), db'))"

text \<open>
  \<open>BaseCreateTemplateView.post\<close>. \<open>get_remote_template_data\<close> fetches the dictionary
  from the import URL: a parameter. In the generic branch the template takes
  \<open>data['vpn']\<close> as it is, and the model refuses a dictionary there.
\<close>

definition BaseCreateTemplateView_post ::
  "validation \<Rightarrow> (string option \<Rightarrow> template_data) \<Rightarrow> import_db \<Rightarrow> request \<Rightarrow>
     (exn + api_response) \<times> import_db" where
  "BaseCreateTemplateView_post val get_remote_template_data db request =
     (let import_url = req_POST request ''url'';
          data = get_remote_template_data import_url
      in if td_type data = ''vpn''
         then (case td_vpn data of
                 None \<Rightarrow> (Inl KeyError, db)
               | Some vd \<Rightarrow>
                   (case save_or_get_ca val db (vd_ca vd) of
                      Inl e \<Rightarrow> (Inl e, db)
                    | Inr (c, db1) \<Rightarrow>
                        (case save_or_get_cert val db1 (cert_model (vd_cert vd) c) of
                           Inl e \<Rightarrow> (Inl e, db1)
                         | Inr (crt, db2) \<Rightarrow>
                             (case save_or_get_vpn val db2 (vpn_model vd c crt) of
                                Inl e \<Rightarrow> (Inl e, db2)
                              | Inr (v, db3) \<Rightarrow>
                                  try_save_template val db3 (template_model_of data (Some v))
                                    import_url request))))
         else (case td_vpn data of
                 Some vd \<Rightarrow> (Inl ValueError, db)
               | None \<Rightarrow>
                   try_save_template val db (template_model_of data None) import_url request))"

text \<open>
  \<open>full_clean\<close> of a new subscription: the boolean field is cleaned with
  \<open>to_python\<close>; what the model declares for the other fields and for uniqueness is a
  parameter that gives their messages. With no message the instance holds the cleaned
  values; otherwise \<open>ValidationError\<close> is raised with all messages.
\<close>

definition subscription_full_clean ::
  "(template_subscription list \<Rightarrow> string \<Rightarrow> string option \<Rightarrow> string list) \<Rightarrow>
   template_subscription list \<Rightarrow> string \<Rightarrow> string option \<Rightarrow> flag \<Rightarrow>
     string list + template_subscription" where
  "subscription_full_clean other_errors subs template subscriber subscribe =
     (case to_python subscribe of
        Inl msgs \<Rightarrow> Inl (other_errors subs template subscriber @ msgs)
      | Inr b \<Rightarrow>
          (case other_errors subs template subscriber of
             [] \<Rightarrow> Inr \<lparr>ts_template = template, ts_subscriber = subscriber, ts_subscribe = b\<rparr>
           | msgs \<Rightarrow> Inl msgs))"

text \<open>
  \<open>BaseTemplateSubscriptionView.post\<close>. In the \<open>try\<close> block the posted value is
  assigned to the row found and \<open>save()\<close> writes its boolean, or raises
  \<open>ValidationError\<close> and writes nothing; only \<open>DoesNotExist\<close> is caught.
\<close>

definition BaseTemplateSubscriptionView_post ::
  "(template_subscription list \<Rightarrow> string \<Rightarrow> string option \<Rightarrow> string list) \<Rightarrow>
   template list \<Rightarrow> template_subscription list \<Rightarrow> request \<Rightarrow>
     (exn + api_response) \<times> template_subscription list" where
  "BaseTemplateSubscriptionView_post other_errors template_model subs request =
     (let subscribe = (case req_POST request ''subscribe'' of
                         None \<Rightarrow> PyFalse | Some v \<Rightarrow> Posted v);
          template_pk = req_POST request ''template''
      in case (case template_pk of
                 None \<Rightarrow> Inl DoesNotExist
               | Some pk \<Rightarrow> objects_get (\<lambda>t. t_id t = pk) template_model) of
           Inl e \<Rightarrow> (Inl e, subs)
         | Inr template \<Rightarrow>
             (let subscriber = req_POST request ''subscriber''
              in case objects_get_index
                        (\<lambda>n. ts_template n = t_id template \<and> ts_subscriber n = subscriber)
                        subs of
                   Inr i \<Rightarrow>
                     (case to_python subscribe of
                        Inl msgs \<Rightarrow> (Inl (ValidationError msgs), subs)
                      | Inr b \<Rightarrow>
                          (Inr (Response JNull (Some 200)),
                           subs[i := (subs ! i)\<lparr>ts_subscribe := b\<rparr>]))
                 | Inl DoesNotExist \<Rightarrow>
                     (case subscription_full_clean other_errors subs (t_id template)
                             subscriber subscribe of
                        Inl msgs \<Rightarrow> (Inl (ValidationError msgs), subs)
                      | Inr notify \<Rightarrow> (Inr (Response JNull (Some 200)), subs @ [notify]))
                 | Inl e \<Rightarrow> (Inl e, subs)))"

text \<open>
  The table of subscriptions holds at most one row for each pair of template and
  subscriber.
\<close>

definition one_per_pair :: "template_subscription list \<Rightarrow> bool" where
  "one_per_pair subs = distinct (map (\<lambda>n. (ts_template n, ts_subscriber n)) subs)"

text \<open>
  A sequence of subscribe and unsubscribe requests, each on the table that the one
  before left (a request that raises leaves the table as it was).
\<close>

fun subscription_posts ::
  "(template_subscription list \<Rightarrow> string \<Rightarrow> string option \<Rightarrow> string list) \<Rightarrow>
   template list \<Rightarrow> template_subscription list \<Rightarrow> request list \<Rightarrow> template_subscription list" where
  "subscription_posts other_errors template_model subs [] = subs"
| "subscription_posts other_errors template_model subs (rq # rqs) =
     subscription_posts other_errors template_model
       (snd (BaseTemplateSubscriptionView_post other_errors template_model subs rq)) rqs"


section \<open>Migration 0042: the key field of a device\<close>

text \<open>
  The field is a character field with \<open>blank=True\<close>, \<open>max_length=64\<close>, \<open>unique=True\<close>
  and one validator, \<open>RegexValidator(re.compile('^[^\\s/\\.]+$'), code='invalid')\<close>.
  The pattern is a sequence of three items: the anchor \<open>^\<close>, one or more characters
  outside a set, and the anchor \<open>$\<close>.
\<close>

datatype regex_item = Caret | Dollar | PlusNotIn "char \<Rightarrow> bool"

text \<open>
  The positions at which an item can end when it starts at position \<open>p\<close> of \<open>s\<close>, as
  \<open>re\<close> matches without flags: \<open>^\<close> at the start of the string only; \<open>$\<close> at the
  end of the string and just before a newline that ends the string; the repetition
  after one or more characters outside the set.
\<close>

fun item_ends :: "regex_item \<Rightarrow> string \<Rightarrow> nat \<Rightarrow> nat list" where
  "item_ends Caret s p = (if p = 0 then [p] else [])"
| "item_ends Dollar s p =
     (if p = length s \<or> (Suc p = length s \<and> s ! p = CHR 0x0A) then [p] else [])"
| "item_ends (PlusNotIn excluded) s p =
     map (\<lambda>k. p + k) [1..<Suc (length (takeWhile (\<lambda>c. \<not> excluded c) (drop p s)))]"

fun seq_ends :: "regex_item list \<Rightarrow> string \<Rightarrow> nat \<Rightarrow> nat list" where
  "seq_ends [] s p = [p]"
| "seq_ends (i # items) s p = concat (map (seq_ends items s) (item_ends i s p))"

text \<open>\<open>regex.search\<close>: the pattern matches from some position of the string.\<close>

definition regex_search :: "regex_item list \<Rightarrow> string \<Rightarrow> bool" where
  "regex_search re s = list_ex (\<lambda>p. seq_ends re s p \<noteq> []) [0..<Suc (length s)]"

text \<open>
  The class \<open>\\s\<close> of a pattern on \<open>str\<close>, on the code points below 256 (a character
  stands for its code point): tab, newline, vertical tab, form feed, carriage return, the
  four separators 0x1C to 0x1F, the space, the next-line character 0x85 and the no-break
  space 0xA0.
\<close>

definition is_whitespace :: "char \<Rightarrow> bool" where
  "is_whitespace c =
     ((9 \<le> (of_char c :: nat) \<and> (of_char c :: nat) \<le> 13) \<or>
      (28 \<le> (of_char c :: nat) \<and> (of_char c :: nat) \<le> 32) \<or>
      (of_char c :: nat) = 133 \<or> (of_char c :: nat) = 160)"

definition key_excluded :: "char \<Rightarrow> bool" where
  "key_excluded c = (is_whitespace c \<or> c = CHR ''/'' \<or> c = CHR ''.'')"

definition key_regex :: "regex_item list" where
  "key_regex = [Caret, PlusNotIn key_excluded, Dollar]"

text \<open>
  The validators of the field, run by \<open>full_clean\<close>: none on an empty value (the field is
  \<open>blank=True\<close>); otherwise the regex validator, which raises with code \<open>invalid\<close>
  when the search finds nothing, and the validator of \<open>max_length=64\<close>. The result is
  the list of the codes raised.
\<close>

definition key_field_errors :: "string \<Rightarrow> string list" where
  "key_field_errors val =
     (if val = [] then []
      else (if regex_search key_regex val then [] else [''invalid'']) @
           (if length val > 64 then [''max_length''] else []))"


section \<open>Example data\<close>

text \<open>Concrete requests, rows and tables, on which the views are run below.\<close>

abbreviation ex_config :: config where
  "ex_config \<equiv>
   \<lparr>c_id = ''d1'', c_name = ''ap1'', c_backend = ''netjsonconfig.OpenWrt'', c_key =
    ''k1'', c_status = ''modified''\<rparr>"

abbreviation ex_registry :: registry where
  "ex_registry \<equiv>
   \<lparr>devices = [\<lparr>d_id = ''0'', d_name = ''ap1'', d_key = ''1''\<rparr>],
    configs = [\<lparr>c_id = ''0'', c_name = ''ap1'', c_backend = ''netjsonconfig.OpenWrt'',
                c_key = ''1'', c_status = ''applied''\<rparr>]\<rparr>"

abbreviation ex_settings :: settings where
  "ex_settings \<equiv>
   \<lparr>REGISTRATION_ENABLED = True, SHARED_SECRET = ''s3cr3t'', BACKENDS =
    [(''netjsonconfig.OpenWrt'', ''OpenWRT''), (''netjsonconfig.OpenWisp'',
    ''OpenWISP'')]\<rparr>"

abbreviation ex_get_wrong_key :: request where
  "ex_get_wrong_key \<equiv>
   \<lparr>req_method = ''GET'', req_GET = [''key'' \<mapsto> ''wrong''], req_POST =
    Map.empty, wsgi_url_scheme = Some ''http'', req_host = ''localhost''\<rparr>"

abbreviation ex_post_no_key :: request where
  "ex_post_no_key \<equiv>
   \<lparr>req_method = ''POST'', req_GET = Map.empty, req_POST = [''status'' \<mapsto>
    ''applied''], wsgi_url_scheme = Some ''http'', req_host = ''localhost''\<rparr>"

abbreviation ex_post_bad_status :: request where
  "ex_post_bad_status \<equiv>
   \<lparr>req_method = ''POST'', req_GET = Map.empty, req_POST = [''key'' \<mapsto> ''k1'',
    ''status'' \<mapsto> ''rebooted''], wsgi_url_scheme = Some ''http'', req_host =
    ''localhost''\<rparr>"

abbreviation ex_post_applied :: request where
  "ex_post_applied \<equiv>
   \<lparr>req_method = ''POST'', req_GET = Map.empty, req_POST = [''key'' \<mapsto> ''k1'',
    ''status'' \<mapsto> ''applied''], wsgi_url_scheme = Some ''http'', req_host =
    ''localhost''\<rparr>"

abbreviation ex_post_register :: request where
  "ex_post_register \<equiv>
   \<lparr>req_method = ''POST'', req_GET = Map.empty, req_POST = [''secret'' \<mapsto>
    ''s3cr3t'', ''name'' \<mapsto> ''ap2'', ''backend'' \<mapsto>
    ''netjsonconfig.OpenWrt''], wsgi_url_scheme = Some ''http'', req_host =
    ''localhost''\<rparr>"

abbreviation ex_get_plain :: request where
  "ex_get_plain \<equiv>
   \<lparr>req_method = ''GET'', req_GET = Map.empty, req_POST = Map.empty, wsgi_url_scheme
    = Some ''http'', req_host = ''localhost''\<rparr>"

abbreviation ex_get_key :: request where
  "ex_get_key \<equiv>
   \<lparr>req_method = ''GET'', req_GET = [''key'' \<mapsto> ''s3cr3t''], req_POST =
    Map.empty, wsgi_url_scheme = Some ''http'', req_host = ''localhost''\<rparr>"

abbreviation ex_get_filters :: request where
  "ex_get_filters \<equiv>
   \<lparr>req_method = ''GET'', req_GET = [''name'' \<mapsto> ''VPN'', ''des'' \<mapsto>
    ''office''], req_POST = Map.empty, wsgi_url_scheme = Some ''http'', req_host =
    ''localhost''\<rparr>"

abbreviation ex_post_subscribe :: request where
  "ex_post_subscribe \<equiv>
   \<lparr>req_method = ''POST'', req_GET = Map.empty, req_POST = [''template'' \<mapsto>
    ''t1'', ''subscriber'' \<mapsto> ''http://a.example'', ''subscribe'' \<mapsto>
    ''False''], wsgi_url_scheme = Some ''http'', req_host = ''localhost''\<rparr>"

abbreviation ex_post_garbage :: request where
  "ex_post_garbage \<equiv>
   \<lparr>req_method = ''POST'', req_GET = Map.empty, req_POST = [''template'' \<mapsto>
    ''t1'', ''subscriber'' \<mapsto> ''http://a.example'', ''subscribe'' \<mapsto>
    ''garbage''], wsgi_url_scheme = Some ''http'', req_host = ''localhost''\<rparr>"

abbreviation ex_post_import :: request where
  "ex_post_import \<equiv>
   \<lparr>req_method = ''POST'', req_GET = Map.empty, req_POST = [''url'' \<mapsto>
    ''http://localhost/test''], wsgi_url_scheme = Some ''http'', req_host =
    ''localhost''\<rparr>"

abbreviation ex_public :: template where
  "ex_public \<equiv>
   \<lparr>t_id = ''t1'', t_name = ''test1'', t_description = ''some text'', t_sharing =
    ''public'', t_key = ''aaa'', t_type = ''generic'', t_vpn = None\<rparr>"

abbreviation ex_secret :: template where
  "ex_secret \<equiv>
   \<lparr>t_id = ''t2'', t_name = ''test2'', t_description = ''some text'', t_sharing =
    ''secret_key'', t_key = ''s3cr3t'', t_type = ''generic'', t_vpn = None\<rparr>"

abbreviation ex_office :: template where
  "ex_office \<equiv>
   \<lparr>t_id = ''t3'', t_name = ''my-vpn'', t_description = ''Office network'', t_sharing
    = ''public'', t_key = ''bbb'', t_type = ''generic'', t_vpn = None\<rparr>"

abbreviation ex_private :: template where
  "ex_private \<equiv>
   \<lparr>t_id = ''t4'', t_name = ''vpn-2'', t_description = ''Office network'', t_sharing
    = ''private'', t_key = ''ccc'', t_type = ''generic'', t_vpn = None\<rparr>"

abbreviation ex_subscribed :: template_subscription where
  "ex_subscribed \<equiv>
   \<lparr>ts_template = ''t1'', ts_subscriber = Some ''http://a.example'', ts_subscribe =
    True\<rparr>"

abbreviation ex_unsubscribed :: template_subscription where
  "ex_unsubscribed \<equiv>
   \<lparr>ts_template = ''t1'', ts_subscriber = Some ''http://a.example'', ts_subscribe =
    False\<rparr>"

abbreviation ex_validation :: validation where
  "ex_validation \<equiv>
   \<lparr>ca_full_clean = (\<lambda>db c. if ca_id c \<in> set (map ca_id (cas db)) then
    Some [''exists''] else None), cert_full_clean = (\<lambda>db c. if cert_id c \<in> set
    (map cert_id (certs db)) then Some [''exists''] else None), vpn_full_clean =
    (\<lambda>db v. if vpn_id v \<in> set (map vpn_id (vpns db)) then Some [''exists''] else
    None), template_full_clean = (\<lambda>db t. if t_id t \<in> set (map t_id (templates
    db)) then Some [''Template with this Id already exists.''] else None)\<rparr>"

abbreviation ex_ca :: ca where
  "ex_ca \<equiv>
   \<lparr>ca_id = ''ca1'', ca_payload = ''ca''\<rparr>"

abbreviation ex_cert :: cert where
  "ex_cert \<equiv>
   \<lparr>cert_id = ''cert1'', cert_ca = ex_ca, cert_payload = ''cert''\<rparr>"

abbreviation ex_vpn :: vpn where
  "ex_vpn \<equiv>
   \<lparr>vpn_id = ''vpn1'', vpn_name = ''vpn'', vpn_ca = ex_ca, vpn_cert = ex_cert,
    vpn_payload = ''openvpn''\<rparr>"

abbreviation ex_vpn_data :: vpn_data where
  "ex_vpn_data \<equiv>
   \<lparr>vd_id = ''vpn1'', vd_name = ''vpn'', vd_ca = ex_ca, vd_cert = \<lparr>cd_id =
    ''cert1'', cd_payload = ''cert''\<rparr>, vd_payload = ''openvpn''\<rparr>"

abbreviation ex_data_vpn :: template_data where
  "ex_data_vpn \<equiv>
   \<lparr>td_type = ''vpn'', td_vpn = Some ex_vpn_data, td_id = ''t2'', td_name =
    ''vpn-temp'', td_description = ''some text'', td_sharing = ''public'', td_key =
    ''bbb''\<rparr>"

abbreviation ex_data_generic :: template_data where
  "ex_data_generic \<equiv>
   \<lparr>td_type = ''generic'', td_vpn = None, td_id = ''t1'', td_name = ''generic-temp'',
    td_description = ''some text'', td_sharing = ''public'', td_key = ''aaa''\<rparr>"

abbreviation ex_template_vpn :: template where
  "ex_template_vpn \<equiv>
   \<lparr>t_id = ''t2'', t_name = ''vpn-temp'', t_description = ''some text'', t_sharing =
    ''public'', t_key = ''bbb'', t_type = ''vpn'', t_vpn = Some ex_vpn\<rparr>"

abbreviation ex_template_generic :: template where
  "ex_template_generic \<equiv>
   \<lparr>t_id = ''t1'', t_name = ''generic-temp'', t_description = ''some text'',
    t_sharing = ''public'', t_key = ''aaa'', t_type = ''generic'', t_vpn = None\<rparr>"

abbreviation ex_db_empty :: import_db where
  "ex_db_empty \<equiv>
   \<lparr>cas = [], certs = [], vpns = [], templates = [], tasks = []\<rparr>"

abbreviation ex_db_generic :: import_db where
  "ex_db_generic \<equiv>
   \<lparr>cas = [], certs = [], vpns = [], templates = [ex_template_generic], tasks =
    []\<rparr>"

abbreviation ex_db_ca :: import_db where
  "ex_db_ca \<equiv>
   \<lparr>cas = [ex_ca], certs = [], vpns = [], templates = [], tasks = []\<rparr>"

abbreviation ex_db_cert :: import_db where
  "ex_db_cert \<equiv>
   \<lparr>cas = [ex_ca], certs = [ex_cert], vpns = [], templates = [], tasks = []\<rparr>"

abbreviation ex_db_vpn :: import_db where
  "ex_db_vpn \<equiv>
   \<lparr>cas = [ex_ca], certs = [ex_cert], vpns = [ex_vpn], templates = [], tasks =
    []\<rparr>"

abbreviation ex_db_all :: import_db where
  "ex_db_all \<equiv>
   \<lparr>cas = [ex_ca], certs = [ex_cert], vpns = [ex_vpn], templates = [ex_template_vpn],
    tasks = []\<rparr>"


section \<open>Controller: key enforcement and status reports\<close>

lemma forbid_unallowed_status:
  "forbid_unallowed params param a = Some r \<Longrightarrow> status_code r = 403"
  by (auto simp: forbid_unallowed_def ControllerResponse_def split: option.splits if_splits)

lemma forbid_unallowed_None_iff:
  "forbid_unallowed params param a = None \<longleftrightarrow> (\<exists>v. params param = Some v \<and> permits a v)"
  by (auto simp: forbid_unallowed_def split: option.splits)

lemma check_required_params_status:
  "check_required_params params ps = Some r \<Longrightarrow> status_code r = 403"
  by (induction ps) (auto split: option.splits dest: forbid_unallowed_status)

lemma check_required_params_None_iff:
  "check_required_params params ps = None \<longleftrightarrow>
     (\<forall>(k, a) \<in> set ps. \<exists>v. params k = Some v \<and> permits a v)"
  by (induction ps) (auto simp: forbid_unallowed_None_iff split: option.splits)

text \<open>
  C1 (amended). For a stored configuration, a checksum or download request (GET) and a
  status report (POST) whose key parameter is missing or differs from the key of the
  configuration is answered with 403, and the status report leaves the table as it
  was. A request for an identifier with no configuration is answered with 404 before any
  key is looked at, so the status code does tell the two apart.
\<close>

theorem key_enforcement:
  "(find (\<lambda>c. c_id c = pk) db = Some cfg \<longrightarrow>
      (req_method rq = ''GET'' \<and> req_GET rq ''key'' \<noteq> Some (c_key cfg) \<longrightarrow>
         http_status (checksum checksum_of db rq pk) = 403 \<and>
         http_status (download_config generate db rq pk) = 403) \<and>
      (req_method rq = ''POST'' \<and> req_POST rq ''key'' \<noteq> Some (c_key cfg) \<longrightarrow>
         http_status (fst (report_status db rq pk)) = 403 \<and>
         snd (report_status db rq pk) = db)) \<and>
   (find (\<lambda>c. c_id c = pk) db = None \<longrightarrow>
      (req_method rq = ''GET'' \<longrightarrow>
         http_status (checksum checksum_of db rq pk) = 404 \<and>
         http_status (download_config generate db rq pk) = 404) \<and>
      (req_method rq = ''POST'' \<longrightarrow>
         http_status (fst (report_status db rq pk)) = 404 \<and>
         snd (report_status db rq pk) = db))"
proof -
  have bad: "\<And>params. params ''key'' \<noteq> Some (c_key cfg) \<Longrightarrow>
      \<exists>r. forbid_unallowed params ''key'' (Exactly (c_key cfg)) = Some r \<and> status_code r = 403"
    by (auto simp: forbid_unallowed_def ControllerResponse_def split: option.splits)
  show ?thesis
  proof (intro conjI impI)
    assume f: "find (\<lambda>c. c_id c = pk) db = Some cfg"
      and h: "req_method rq = ''GET'' \<and> req_GET rq ''key'' \<noteq> Some (c_key cfg)"
    from bad[of "req_GET rq"] h obtain r where
      r: "forbid_unallowed (req_GET rq) ''key'' (Exactly (c_key cfg)) = Some r" "status_code r = 403"
      by blast
    show "http_status (checksum checksum_of db rq pk) = 403"
      using f h r by (simp add: checksum_def get_config_or_404_def http_status_def)
    show "http_status (download_config generate db rq pk) = 403"
      using f h r by (simp add: download_config_def get_config_or_404_def http_status_def)
  next
    assume f: "find (\<lambda>c. c_id c = pk) db = Some cfg"
      and h: "req_method rq = ''POST'' \<and> req_POST rq ''key'' \<noteq> Some (c_key cfg)"
    from bad[of "req_POST rq"] h obtain r where
      r: "forbid_unallowed (req_POST rq) ''key'' (Exactly (c_key cfg)) = Some r" "status_code r = 403"
      by blast
    show "http_status (fst (report_status db rq pk)) = 403"
      using f h r by (simp add: report_status_def get_config_or_404_def http_status_def)
    show "snd (report_status db rq pk) = db"
      using f h r by (simp add: report_status_def get_config_or_404_def)
  next
    assume f: "find (\<lambda>c. c_id c = pk) db = None" and h: "req_method rq = ''GET''"
    show "http_status (checksum checksum_of db rq pk) = 404"
      using f h by (simp add: checksum_def get_config_or_404_def http_status_def)
    show "http_status (download_config generate db rq pk) = 404"
      using f h by (simp add: download_config_def get_config_or_404_def http_status_def)
  next
    assume f: "find (\<lambda>c. c_id c = pk) db = None" and h: "req_method rq = ''POST''"
    show "http_status (fst (report_status db rq pk)) = 404"
      using f h by (simp add: report_status_def get_config_or_404_def http_status_def)
    show "snd (report_status db rq pk) = db"
      using f h by (simp add: report_status_def get_config_or_404_def)
  qed
qed

theorem key_enforcement_witness:
  "http_status (checksum c_name [ex_config] ex_get_wrong_key ''d1'') = 403 \<and>
   http_status (download_config c_name [ex_config] ex_get_wrong_key ''d1'') = 403 \<and>
   http_status (fst (report_status [ex_config] ex_post_no_key ''d1'')) = 403 \<and>
   snd (report_status [ex_config] ex_post_no_key ''d1'') = [ex_config] \<and>
   http_status (checksum c_name [ex_config] ex_get_wrong_key ''d2'') = 404 \<and>
   http_status (download_config c_name [ex_config] ex_get_wrong_key ''d2'') = 404 \<and>
   http_status (fst (report_status [ex_config] ex_post_no_key ''d2'')) = 404"
  using key_enforcement [where pk = "''d1''" and db = "[ex_config]" and cfg = "ex_config"
          and rq = "ex_get_wrong_key" and checksum_of = c_name and generate = c_name]
        key_enforcement [where pk = "''d1''" and db = "[ex_config]" and cfg = "ex_config"
          and rq = "ex_post_no_key" and checksum_of = c_name and generate = c_name]
        key_enforcement [where pk = "''d2''" and db = "[ex_config]" and cfg = "ex_config"
          and rq = "ex_get_wrong_key" and checksum_of = c_name and generate = c_name]
        key_enforcement [where pk = "''d2''" and db = "[ex_config]" and cfg = "ex_config"
          and rq = "ex_post_no_key" and checksum_of = c_name and generate = c_name]
  by simp

text \<open>
  C1 as stated fails: with the same wrong key, the checksum request for a stored
  identifier is answered with 403 and the one for an unknown identifier with 404.
\<close>

theorem key_enforcement_counterexample:
  "http_status (checksum c_name [ex_config] ex_get_wrong_key ''d1'') = 403 \<and>
   http_status (checksum c_name [ex_config] ex_get_wrong_key ''d2'') = 404 \<and>
   http_status (checksum c_name [ex_config] ex_get_wrong_key ''d1'') \<noteq>
   http_status (checksum c_name [ex_config] ex_get_wrong_key ''d2'')"
  by (simp add: checksum_def get_config_or_404_def forbid_unallowed_def
        ControllerResponse_def http_status_def)

text \<open>
  C3. A status report (POST) for a stored configuration whose status value is missing or
  outside modified, applied, error is answered with 403, whatever its key, and the
  table is left as it was.
\<close>

theorem status_allow_list:
  assumes "find (\<lambda>c. c_id c = pk) db = Some cfg"
    and "req_method rq = ''POST''"
    and "req_POST rq ''status'' \<notin> Some ` {''modified'', ''applied'', ''error''}"
  shows "http_status (fst (report_status db rq pk)) = 403 \<and> snd (report_status db rq pk) = db"
proof -
  let ?ps = "[(''key'', Exactly (c_key cfg)), (''status'', OneOf (map fst Config_STATUS))]"
  have "check_required_params (req_POST rq) ?ps \<noteq> None"
  proof
    assume "check_required_params (req_POST rq) ?ps = None"
    then have "\<exists>v. req_POST rq ''status'' = Some v \<and> permits (OneOf (map fst Config_STATUS)) v"
      unfolding check_required_params_None_iff by simp
    with assms(3) show False by (auto simp: Config_STATUS_def)
  qed
  then obtain r where r: "check_required_params (req_POST rq) ?ps = Some r" by blast
  then have "status_code r = 403" by (rule check_required_params_status)
  with r assms(1,2) show ?thesis
    by (simp add: report_status_def get_config_or_404_def http_status_def)
qed

theorem status_allow_list_witness:
  "http_status (fst (report_status [ex_config] ex_post_bad_status ''d1'')) = 403 \<and>
   snd (report_status [ex_config] ex_post_bad_status ''d1'') = [ex_config]"
  using status_allow_list [where pk = "''d1''" and db = "[ex_config]" and cfg = "ex_config" and rq = "ex_post_bad_status"]
  by simp

text \<open>
  C4. A status report (POST) for a stored configuration with the key of the configuration
  and a status among modified, applied, error is answered with 200 and the plain text
  of the two lines, the second giving the reported status; the row of the configuration
  now holds that status and every other row is as before.
\<close>

theorem status_report_stored:
  assumes "find (\<lambda>c. c_id c = pk) db = Some cfg"
    and "req_method rq = ''POST''"
    and "req_POST rq ''key'' = Some (c_key cfg)"
    and "req_POST rq ''status'' = Some s"
    and "s \<in> {''modified'', ''applied'', ''error''}"
  shows "fst (report_status db rq pk) =
           Inr \<lparr>status_code = 200, content_type = ''text/plain'',
                content = ''report-result: success'' @ newline @
                          ''current-status: '' @ s @ newline\<rparr> \<and>
         snd (report_status db rq pk) =
           map (\<lambda>c. if c_id c = pk then cfg\<lparr>c_status := s\<rparr> else c) db \<and>
         find (\<lambda>c. c_id c = pk) (snd (report_status db rq pk)) = Some (cfg\<lparr>c_status := s\<rparr>)"
proof -
  let ?ps = "[(''key'', Exactly (c_key cfg)), (''status'', OneOf (map fst Config_STATUS))]"
  have ok: "check_required_params (req_POST rq) ?ps = None"
    unfolding check_required_params_None_iff using assms(3,4,5)
    by (auto simp: Config_STATUS_def)
  have id: "c_id cfg = pk"
    using assms(1) by (auto simp: find_Some_iff)
  have res: "report_status db rq pk =
      (Inr (ControllerResponse (''report-result: success'' @ newline @
                                ''current-status: '' @ s @ newline) ''text/plain'' None),
       config_save db (cfg\<lparr>c_status := s\<rparr>))"
    using assms(1,2,4) ok by (simp add: report_status_def get_config_or_404_def Let_def)
  have found: "find (\<lambda>c. c_id c = pk) (map (\<lambda>c. if c_id c = pk then cfg\<lparr>c_status := s\<rparr> else c) xs)
      = Some (cfg\<lparr>c_status := s\<rparr>)" if "find (\<lambda>c. c_id c = pk) xs = Some y" for xs y
    using that id by (induction xs) (auto split: if_splits)
  show ?thesis
    using res id found[OF assms(1)] by (simp add: ControllerResponse_def config_save_def)
qed

theorem status_report_stored_witness:
  "fst (report_status [ex_config] ex_post_applied ''d1'') =
     Inr \<lparr>status_code = 200, content_type = ''text/plain'',
          content = ''report-result: success'' @ newline @
                    ''current-status: applied'' @ newline\<rparr> \<and>
   snd (report_status [ex_config] ex_post_applied ''d1'') = [ex_config\<lparr>c_status := ''applied''\<rparr>]"
  using status_report_stored [where pk = "''d1''" and db = "[ex_config]" and cfg = "ex_config"
          and rq = "ex_post_applied" and s = "''applied''"]
  by simp

section \<open>Template API: detail and list\<close>

lemma contains_empty: "contains val [] = True"
  by (cases val) auto

lemma icontains_empty: "icontains val [] = True"
  by (simp add: icontains_def contains_empty)

lemma filter_unique_pk:
  assumes "distinct (map pk_of rows)" and "x \<in> set rows"
  shows "filter (\<lambda>r. pk_of r = pk_of x \<and> P r) rows = (if P x then [x] else [])"
  using assms
proof (induction rows)
  case Nil
  then show ?case by simp
next
  case (Cons r rows)
  show ?case
  proof (cases "r = x")
    case True
    with Cons.prems have "\<forall>y \<in> set rows. pk_of y \<noteq> pk_of x" by (auto simp: image_iff)
    then have "filter (\<lambda>r. pk_of r = pk_of x \<and> P r) rows = []"
      by (simp add: filter_empty_conv)
    with True show ?thesis by simp
  next
    case False
    with Cons.prems have "x \<in> set rows" "pk_of r \<noteq> pk_of x" "distinct (map pk_of rows)"
      by (auto simp: image_iff)
    with Cons.IH show ?thesis by simp
  qed
qed

lemma detail_lookup:
  assumes "distinct (map t_id tpls)" and "t \<in> set tpls"
  shows "get_object_or_404 (matches_opts \<lparr>opt_pk = t_id t, opt_sharing = sh, opt_key = k\<rparr>) tpls =
     (if t_sharing t = sh \<and> (case k of None \<Rightarrow> True | Some k' \<Rightarrow> t_key t = k')
      then Inr t else Inl Http404)"
proof -
  have "filter (matches_opts \<lparr>opt_pk = t_id t, opt_sharing = sh, opt_key = k\<rparr>) tpls =
        filter (\<lambda>r. t_id r = t_id t \<and>
                 (t_sharing r = sh \<and> (case k of None \<Rightarrow> True | Some k' \<Rightarrow> t_key r = k'))) tpls"
    by (rule filter_cong) (simp_all add: matches_opts_def)
  also have "\<dots> = (if t_sharing t = sh \<and> (case k of None \<Rightarrow> True | Some k' \<Rightarrow> t_key t = k')
                    then [t] else [])"
    using filter_unique_pk[OF assms,
        where P = "\<lambda>r. t_sharing r = sh \<and> (case k of None \<Rightarrow> True | Some k' \<Rightarrow> t_key r = k')"]
    by simp
  finally show ?thesis
    by (simp add: get_object_or_404_def objects_get_def)
qed

lemma detail_lookup_missing:
  assumes "uuid \<notin> t_id ` set tpls"
  shows "get_object_or_404 (matches_opts \<lparr>opt_pk = uuid, opt_sharing = sh, opt_key = k\<rparr>) tpls = Inl Http404"
proof -
  have "filter (matches_opts \<lparr>opt_pk = uuid, opt_sharing = sh, opt_key = k\<rparr>) tpls = []"
    using assms by (auto simp: filter_empty_conv matches_opts_def)
  then show ?thesis by (simp add: get_object_or_404_def objects_get_def)
qed

text \<open>
  C6 (amended). With primary keys unique, the detail of a stored template is answered
  with 200 and its serialized data when the request has no key (or an empty one) and the
  template is public, or when the request has a non-empty key, the template is shared by
  secret key and its key is the one given; in every other case, and for an unknown
  identifier, the view raises \<open>Http404\<close>.
\<close>

theorem template_detail:
  assumes "distinct (map t_id tpls)"
  shows "(t \<in> set tpls \<and> t_id t = uuid \<longrightarrow>
           BaseTemplateDetailView_get ser tpls rq uuid =
             (if (\<not> truthy (req_GET rq ''key'') \<and> t_sharing t = ''public'') \<or>
                 (truthy (req_GET rq ''key'') \<and> t_sharing t = ''secret_key'' \<and>
                  req_GET rq ''key'' = Some (t_key t))
              then Inr \<lparr>api_status = 200, api_data = ser t\<rparr>
              else Inl Http404)) \<and>
         (uuid \<notin> t_id ` set tpls \<longrightarrow>
           BaseTemplateDetailView_get ser tpls rq uuid = Inl Http404)"
proof (intro conjI impI)
  assume h: "t \<in> set tpls \<and> t_id t = uuid"
  show "BaseTemplateDetailView_get ser tpls rq uuid =
             (if (\<not> truthy (req_GET rq ''key'') \<and> t_sharing t = ''public'') \<or>
                 (truthy (req_GET rq ''key'') \<and> t_sharing t = ''secret_key'' \<and>
                  req_GET rq ''key'' = Some (t_key t))
              then Inr \<lparr>api_status = 200, api_data = ser t\<rparr>
              else Inl Http404)"
  proof (cases "truthy (req_GET rq ''key'')")
    case True
    then obtain k where k: "req_GET rq ''key'' = Some k" "k \<noteq> []"
      by (cases "req_GET rq ''key''") auto
    from h have "uuid = t_id t" by simp
    then show ?thesis
      using True k detail_lookup[OF assms, of t "''secret_key''" "Some k"] h
      by (auto simp: BaseTemplateDetailView_get_def Let_def Response_def)
  next
    case False
    from h have "uuid = t_id t" by simp
    then show ?thesis
      using False detail_lookup[OF assms, of t "''public''" None] h
      by (auto simp: BaseTemplateDetailView_get_def Let_def Response_def)
  qed
next
  assume "uuid \<notin> t_id ` set tpls"
  then show "BaseTemplateDetailView_get ser tpls rq uuid = Inl Http404"
    by (simp add: BaseTemplateDetailView_get_def Let_def detail_lookup_missing)
qed

theorem template_detail_witness:
  "BaseTemplateDetailView_get (\<lambda>t. JString (t_name t)) [ex_public, ex_secret] ex_get_plain ''t1'' =
     Inr \<lparr>api_status = 200, api_data = JString ''test1''\<rparr> \<and>
   BaseTemplateDetailView_get (\<lambda>t. JString (t_name t)) [ex_public, ex_secret] ex_get_key ''t2'' =
     Inr \<lparr>api_status = 200, api_data = JString ''test2''\<rparr> \<and>
   BaseTemplateDetailView_get (\<lambda>t. JString (t_name t)) [ex_public, ex_secret] ex_get_plain ''t2'' = Inl Http404 \<and>
   BaseTemplateDetailView_get (\<lambda>t. JString (t_name t)) [ex_public, ex_secret] ex_get_plain ''t3'' = Inl Http404"
  using template_detail [where tpls = "[ex_public, ex_secret]" and t = "ex_public" and uuid = "''t1''"
          and rq = "ex_get_plain" and ser = "\<lambda>t. JString (t_name t)"]
        template_detail [where tpls = "[ex_public, ex_secret]" and t = "ex_secret" and uuid = "''t2''"
          and rq = "ex_get_key" and ser = "\<lambda>t. JString (t_name t)"]
        template_detail [where tpls = "[ex_public, ex_secret]" and t = "ex_secret" and uuid = "''t2''"
          and rq = "ex_get_plain" and ser = "\<lambda>t. JString (t_name t)"]
        template_detail [where tpls = "[ex_public, ex_secret]" and t = "ex_secret" and uuid = "''t3''"
          and rq = "ex_get_plain" and ser = "\<lambda>t. JString (t_name t)"]
  by simp

text \<open>
  C6 as stated fails: a public template asked for with a key is not answered with 200.
\<close>

theorem template_detail_counterexample:
  "t_sharing ex_public = ''public'' \<and>
   api_http_status
     (BaseTemplateDetailView_get (\<lambda>t. JString (t_name t)) [ex_public] ex_get_key ''t1'') = 404"
  by (simp add: BaseTemplateDetailView_get_def get_object_or_404_def objects_get_def
        matches_opts_def api_http_status_def)

text \<open>
  C10. With primary keys unique, the detail of a stored public template asked for with a
  non-empty key is answered with 404, and the same request without the key with 200.
\<close>

theorem public_template_with_key:
  assumes "distinct (map t_id tpls)" and "t \<in> set tpls" and "t_sharing t = ''public''"
    and "req_GET rq ''key'' = Some k" and "k \<noteq> []"
  shows "api_http_status (BaseTemplateDetailView_get ser tpls rq (t_id t)) = 404 \<and>
         BaseTemplateDetailView_get ser tpls (rq\<lparr>req_GET := (req_GET rq)(''key'' := None)\<rparr>) (t_id t) =
           Inr \<lparr>api_status = 200, api_data = ser t\<rparr>"
proof
  show "api_http_status (BaseTemplateDetailView_get ser tpls rq (t_id t)) = 404"
    using assms(3,4,5) detail_lookup[OF assms(1,2), of "''secret_key''" "Some k"]
    by (simp add: BaseTemplateDetailView_get_def Let_def api_http_status_def)
  show "BaseTemplateDetailView_get ser tpls (rq\<lparr>req_GET := (req_GET rq)(''key'' := None)\<rparr>) (t_id t) =
           Inr \<lparr>api_status = 200, api_data = ser t\<rparr>"
    using assms(3) detail_lookup[OF assms(1,2), of "''public''" None]
    by (simp add: BaseTemplateDetailView_get_def Let_def Response_def)
qed

theorem public_template_with_key_witness:
  "api_http_status
     (BaseTemplateDetailView_get (\<lambda>t. JString (t_name t)) [ex_public, ex_secret] ex_get_key ''t1'') = 404 \<and>
   BaseTemplateDetailView_get (\<lambda>t. JString (t_name t)) [ex_public, ex_secret] ex_get_plain ''t1'' =
     Inr \<lparr>api_status = 200, api_data = JString ''test1''\<rparr>"
  using public_template_with_key [where tpls = "[ex_public, ex_secret]" and t = "ex_public"
          and rq = "ex_get_key" and k = "''s3cr3t''" and ser = "\<lambda>t. JString (t_name t)"]
  by simp

text \<open>
  C7. The list view returns, in the order of the table, exactly the public templates
  whose name contains the \<open>name\<close> value when one is given and whose description
  contains the \<open>des\<close> value when one is given, both as substrings with letter case
  ignored; the response is 200 with their serialized data.
\<close>

theorem list_public_templates:
  "get_queryset qs rq =
     filter (\<lambda>t. t_sharing t = ''public'' \<and>
                 (\<forall>n. req_GET rq ''name'' = Some n \<longrightarrow> icontains (t_name t) n) \<and>
                 (\<forall>d. req_GET rq ''des'' = Some d \<longrightarrow> icontains (t_description t) d)) qs \<and>
   BaseListTemplateView_get ser qs rq =
     \<lparr>api_status = 200, api_data = JArray (map ser (get_queryset qs rq))\<rparr>"
proof
  show "get_queryset qs rq =
     filter (\<lambda>t. t_sharing t = ''public'' \<and>
                 (\<forall>n. req_GET rq ''name'' = Some n \<longrightarrow> icontains (t_name t) n) \<and>
                 (\<forall>d. req_GET rq ''des'' = Some d \<longrightarrow> icontains (t_description t) d)) qs"
  proof (cases "req_GET rq ''name''")
    case None
    then show ?thesis
      by (cases "req_GET rq ''des''")
         (auto simp: get_queryset_def Let_def icontains_empty intro!: filter_cong)
  next
    case (Some n)
    then show ?thesis
      by (cases "req_GET rq ''des''")
         (auto simp: get_queryset_def Let_def icontains_empty intro!: filter_cong)
  qed
  show "BaseListTemplateView_get ser qs rq =
     \<lparr>api_status = 200, api_data = JArray (map ser (get_queryset qs rq))\<rparr>"
    by (simp add: BaseListTemplateView_get_def Let_def Response_def)
qed

theorem list_public_templates_witness:
  "get_queryset [ex_public, ex_secret, ex_office, ex_private] ex_get_filters = [ex_office]"
  using list_public_templates [where qs = "[ex_public, ex_secret, ex_office, ex_private]" and rq = "ex_get_filters"
          and ser = "\<lambda>t. JString (t_name t)"]
  by (simp add: icontains_def ascii_lower_def)


section \<open>Template API: subscriptions\<close>

lemma distinct_set_singleton:
  assumes "distinct xs" and "set xs = {x}"
  shows "xs = [x]"
proof (cases xs)
  case Nil
  with assms show ?thesis by simp
next
  case (Cons y ys)
  with assms have "y = x" by auto
  moreover have "ys = []"
  proof (cases ys)
    case Nil
    then show ?thesis .
  next
    case (Cons z zs)
    with \<open>xs = y # ys\<close> assms have "z = x" "z \<noteq> y" by auto
    with \<open>y = x\<close> show ?thesis by simp
  qed
  ultimately show ?thesis using Cons by simp
qed

lemma objects_get_index_Inr:
  assumes "objects_get_index P rows = Inr i"
  shows "i < length rows \<and> P (rows ! i)"
proof -
  from assms have "filter (\<lambda>j. P (rows ! j)) [0..<length rows] = [i]"
    by (auto simp: objects_get_index_def split: list.splits)
  then have "i \<in> set (filter (\<lambda>j. P (rows ! j)) [0..<length rows])" by simp
  then show ?thesis by simp
qed

lemma objects_get_index_DoesNotExist:
  assumes "objects_get_index P rows = Inl DoesNotExist"
  shows "\<forall>r \<in> set rows. \<not> P r"
proof -
  from assms have "filter (\<lambda>j. P (rows ! j)) [0..<length rows] = []"
    by (auto simp: objects_get_index_def split: list.splits)
  then have "\<forall>j < length rows. \<not> P (rows ! j)"
    by (simp add: filter_empty_conv)
  then show ?thesis by (auto simp: in_set_conv_nth)
qed

lemma objects_get_index_none:
  assumes "\<forall>r \<in> set rows. \<not> P r"
  shows "objects_get_index P rows = Inl DoesNotExist"
proof -
  have "filter (\<lambda>j. P (rows ! j)) [0..<length rows] = []"
    using assms by (simp add: filter_empty_conv)
  then show ?thesis by (simp add: objects_get_index_def)
qed

lemma objects_get_index_unique:
  assumes "distinct (map f rows)" and "i < length rows"
  shows "objects_get_index (\<lambda>r. f r = f (rows ! i)) rows = Inr i"
proof -
  let ?js = "filter (\<lambda>j. f (rows ! j) = f (rows ! i)) [0..<length rows]"
  have "distinct ?js" by simp
  moreover have "set ?js = {i}"
  proof -
    have "j = i" if "j < length rows" "f (rows ! j) = f (rows ! i)" for j
    proof -
      have "(map f rows ! j = map f rows ! i) = (j = i)"
        using assms that(1) by (intro nth_eq_iff_index_eq) simp_all
      then show ?thesis using that assms(2) by simp
    qed
    with assms(2) show ?thesis by auto
  qed
  ultimately have "?js = [i]" by (rule distinct_set_singleton)
  then show ?thesis by (simp add: objects_get_index_def)
qed

lemma objects_get_index_result:
  "(\<exists>i. objects_get_index P rows = Inr i) \<or> objects_get_index P rows = Inl DoesNotExist \<or>
   objects_get_index P rows = Inl MultipleObjectsReturned"
  by (simp add: objects_get_index_def split: list.splits)

lemma one_per_pair_update:
  assumes "one_per_pair subs" and "i < length subs"
  shows "one_per_pair (subs[i := (subs ! i)\<lparr>ts_subscribe := v\<rparr>])"
proof -
  let ?f = "\<lambda>n. (ts_template n, ts_subscriber n)"
  have "map ?f (subs[i := (subs ! i)\<lparr>ts_subscribe := v\<rparr>]) = (map ?f subs)[i := ?f (subs ! i)]"
    by (simp add: map_update)
  also have "\<dots> = (map ?f subs)[i := map ?f subs ! i]"
    using assms(2) by simp
  also have "\<dots> = map ?f subs"
    by (rule list_update_id)
  finally show ?thesis using assms(1) by (simp add: one_per_pair_def)
qed

lemma one_per_pair_append:
  assumes "one_per_pair subs"
    and "\<forall>r \<in> set subs. \<not> (ts_template r = ts_template n \<and> ts_subscriber r = ts_subscriber n)"
  shows "one_per_pair (subs @ [n])"
  using assms by (auto simp: one_per_pair_def)

lemma subscription_full_clean_row:
  assumes "subscription_full_clean oe subs tpl subscriber raw = Inr n"
  shows "ts_template n = tpl \<and> ts_subscriber n = subscriber \<and> to_python raw = Inr (ts_subscribe n)"
  using assms
  by (auto simp: subscription_full_clean_def split: sum.splits list.splits)

lemma post_preserves_one_per_pair:
  assumes "one_per_pair subs"
  shows "one_per_pair (snd (BaseTemplateSubscriptionView_post oe tpls subs rq))"
proof -
  let ?raw = "case req_POST rq ''subscribe'' of None \<Rightarrow> PyFalse | Some v \<Rightarrow> Posted v"
  let ?tpl = "case req_POST rq ''template'' of None \<Rightarrow> Inl DoesNotExist
              | Some pk \<Rightarrow> objects_get (\<lambda>t. t_id t = pk) tpls"
  let ?post = "BaseTemplateSubscriptionView_post oe tpls subs rq"
  show ?thesis
  proof (cases ?tpl)
    case (Inl e)
    then have "snd ?post = subs"
      by (simp add: BaseTemplateSubscriptionView_post_def Let_def)
    with assms show ?thesis by simp
  next
    case (Inr template)
    let ?P = "\<lambda>n. ts_template n = t_id template \<and> ts_subscriber n = req_POST rq ''subscriber''"
    consider (found) i where "objects_get_index ?P subs = Inr i"
      | (none) "objects_get_index ?P subs = Inl DoesNotExist"
      | (many) "objects_get_index ?P subs = Inl MultipleObjectsReturned"
      using objects_get_index_result[of ?P subs] by blast
    then show ?thesis
    proof cases
      case found
      then have len: "i < length subs" by (simp add: objects_get_index_Inr)
      show ?thesis
      proof (cases "to_python ?raw")
        case (Inl msgs)
        with Inr found have "snd ?post = subs"
          by (simp add: BaseTemplateSubscriptionView_post_def Let_def)
        with assms show ?thesis by simp
      next
        case (Inr b)
        with \<open>?tpl = Inr template\<close> found
        have "snd ?post = subs[i := (subs ! i)\<lparr>ts_subscribe := b\<rparr>]"
          by (simp add: BaseTemplateSubscriptionView_post_def Let_def)
        moreover have "one_per_pair (subs[i := (subs ! i)\<lparr>ts_subscribe := b\<rparr>])"
          using assms len by (rule one_per_pair_update)
        ultimately show ?thesis by simp
      qed
    next
      case none
      then have no: "\<forall>r \<in> set subs. \<not> ?P r" by (rule objects_get_index_DoesNotExist)
      show ?thesis
      proof (cases "subscription_full_clean oe subs (t_id template)
                      (req_POST rq ''subscriber'') ?raw")
        case (Inl msgs)
        with Inr none have "snd ?post = subs"
          by (simp add: BaseTemplateSubscriptionView_post_def Let_def)
        with assms show ?thesis by simp
      next
        case (Inr n)
        then have n: "ts_template n = t_id template" "ts_subscriber n = req_POST rq ''subscriber''"
          by (simp_all add: subscription_full_clean_row)
        from \<open>?tpl = Inr template\<close> none Inr have "snd ?post = subs @ [n]"
          by (simp add: BaseTemplateSubscriptionView_post_def Let_def)
        moreover have "one_per_pair (subs @ [n])"
          using assms no n by (intro one_per_pair_append) simp_all
        ultimately show ?thesis by simp
      qed
    next
      case many
      with Inr have "snd ?post = subs"
        by (simp add: BaseTemplateSubscriptionView_post_def Let_def)
      with assms show ?thesis by simp
    qed
  qed
qed

lemma posts_preserve_one_per_pair:
  "one_per_pair subs \<Longrightarrow> one_per_pair (subscription_posts oe tpls subs rqs)"
proof (induction rqs arbitrary: subs)
  case Nil
  then show ?case by simp
next
  case (Cons rq rqs)
  from Cons.prems have "one_per_pair (snd (BaseTemplateSubscriptionView_post oe tpls subs rq))"
    by (rule post_preserves_one_per_pair)
  then have "one_per_pair (subscription_posts oe tpls
      (snd (BaseTemplateSubscriptionView_post oe tpls subs rq)) rqs)"
    by (rule Cons.IH)
  then show ?case by simp
qed

text \<open>
  C5. Any sequence of subscribe and unsubscribe requests, started on the empty table,
  leaves at most one row for each pair of template and subscriber, and one request
  keeps a table of that kind so. On such a table, a request for a stored template and a
  pair that has a row writes the posted boolean into that row, in place, and is answered
  with 200; when the posted value stands for no boolean, \<open>save()\<close> raises and the table
  is left as it was. The table grows only by a request for a stored template whose pair
  has no row, and then by the one row of that pair with the posted boolean.
\<close>

theorem subscription_upsert:
  "one_per_pair (subscription_posts oe tpls [] rqs) \<and>
   (one_per_pair subs \<longrightarrow>
      one_per_pair (snd (BaseTemplateSubscriptionView_post oe tpls subs rq))) \<and>
   (one_per_pair subs \<and> req_POST rq ''template'' = Some pk \<and>
    objects_get (\<lambda>t. t_id t = pk) tpls = Inr template \<and>
    i < length subs \<and> ts_template (subs ! i) = t_id template \<and>
    ts_subscriber (subs ! i) = req_POST rq ''subscriber'' \<longrightarrow>
      (to_python (case req_POST rq ''subscribe'' of None \<Rightarrow> PyFalse | Some v \<Rightarrow> Posted v) =
         Inr b \<longrightarrow>
       BaseTemplateSubscriptionView_post oe tpls subs rq =
         (Inr \<lparr>api_status = 200, api_data = JNull\<rparr>,
          subs[i := (subs ! i)\<lparr>ts_subscribe := b\<rparr>])) \<and>
      (to_python (case req_POST rq ''subscribe'' of None \<Rightarrow> PyFalse | Some v \<Rightarrow> Posted v) =
         Inl msgs \<longrightarrow>
       BaseTemplateSubscriptionView_post oe tpls subs rq =
         (Inl (ValidationError msgs), subs))) \<and>
   (length (snd (BaseTemplateSubscriptionView_post oe tpls subs rq)) \<noteq> length subs \<longrightarrow>
      (\<exists>template n. req_POST rq ''template'' = Some (t_id template) \<and> template \<in> set tpls \<and>
         (\<forall>r \<in> set subs. \<not> (ts_template r = t_id template \<and>
                               ts_subscriber r = req_POST rq ''subscriber'')) \<and>
         ts_template n = t_id template \<and> ts_subscriber n = req_POST rq ''subscriber'' \<and>
         to_python (case req_POST rq ''subscribe'' of None \<Rightarrow> PyFalse | Some v \<Rightarrow> Posted v) =
           Inr (ts_subscribe n) \<and>
         BaseTemplateSubscriptionView_post oe tpls subs rq =
           (Inr \<lparr>api_status = 200, api_data = JNull\<rparr>, subs @ [n])))"
proof (intro conjI impI)
  show "one_per_pair (subscription_posts oe tpls [] rqs)"
    by (rule posts_preserve_one_per_pair) (simp add: one_per_pair_def)
next
  assume "one_per_pair subs"
  then show "one_per_pair (snd (BaseTemplateSubscriptionView_post oe tpls subs rq))"
    by (rule post_preserves_one_per_pair)
next
  let ?raw = "case req_POST rq ''subscribe'' of None \<Rightarrow> PyFalse | Some v \<Rightarrow> Posted v"
  assume h: "one_per_pair subs \<and> req_POST rq ''template'' = Some pk \<and>
    objects_get (\<lambda>t. t_id t = pk) tpls = Inr template \<and>
    i < length subs \<and> ts_template (subs ! i) = t_id template \<and>
    ts_subscriber (subs ! i) = req_POST rq ''subscriber''"
  let ?f = "\<lambda>n. (ts_template n, ts_subscriber n)"
  have "objects_get_index (\<lambda>r. ?f r = ?f (subs ! i)) subs = Inr i"
    using h by (intro objects_get_index_unique) (simp_all add: one_per_pair_def)
  then have idx: "objects_get_index
      (\<lambda>n. ts_template n = t_id template \<and> ts_subscriber n = req_POST rq ''subscriber'') subs = Inr i"
    using h by simp
  {
    assume "to_python ?raw = Inr b"
    with h idx show "BaseTemplateSubscriptionView_post oe tpls subs rq =
        (Inr \<lparr>api_status = 200, api_data = JNull\<rparr>, subs[i := (subs ! i)\<lparr>ts_subscribe := b\<rparr>])"
      by (simp add: BaseTemplateSubscriptionView_post_def Let_def Response_def)
  }
  {
    assume "to_python ?raw = Inl msgs"
    with h idx show "BaseTemplateSubscriptionView_post oe tpls subs rq =
        (Inl (ValidationError msgs), subs)"
      by (simp add: BaseTemplateSubscriptionView_post_def Let_def)
  }
next
  let ?raw = "case req_POST rq ''subscribe'' of None \<Rightarrow> PyFalse | Some v \<Rightarrow> Posted v"
  let ?tpl = "case req_POST rq ''template'' of None \<Rightarrow> Inl DoesNotExist
              | Some pk \<Rightarrow> objects_get (\<lambda>t. t_id t = pk) tpls"
  let ?post = "BaseTemplateSubscriptionView_post oe tpls subs rq"
  assume grow: "length (snd ?post) \<noteq> length subs"
  show "\<exists>template n. req_POST rq ''template'' = Some (t_id template) \<and> template \<in> set tpls \<and>
         (\<forall>r \<in> set subs. \<not> (ts_template r = t_id template \<and>
                               ts_subscriber r = req_POST rq ''subscriber'')) \<and>
         ts_template n = t_id template \<and> ts_subscriber n = req_POST rq ''subscriber'' \<and>
         to_python ?raw = Inr (ts_subscribe n) \<and>
         ?post = (Inr \<lparr>api_status = 200, api_data = JNull\<rparr>, subs @ [n])"
  proof (cases ?tpl)
    case (Inl e)
    then have "snd ?post = subs"
      by (simp add: BaseTemplateSubscriptionView_post_def Let_def)
    with grow show ?thesis by simp
  next
    case (Inr template)
    then obtain pk where pk: "req_POST rq ''template'' = Some pk"
      "objects_get (\<lambda>t. t_id t = pk) tpls = Inr template"
      by (cases "req_POST rq ''template''") auto
    from pk(2) have "filter (\<lambda>t. t_id t = pk) tpls = [template]"
      by (auto simp: objects_get_def split: list.splits)
    then have "template \<in> set (filter (\<lambda>t. t_id t = pk) tpls)" by simp
    then have tpl: "template \<in> set tpls" "t_id template = pk" by auto
    let ?P = "\<lambda>n. ts_template n = t_id template \<and> ts_subscriber n = req_POST rq ''subscriber''"
    consider (found) i where "objects_get_index ?P subs = Inr i"
      | (none) "objects_get_index ?P subs = Inl DoesNotExist"
      | (many) "objects_get_index ?P subs = Inl MultipleObjectsReturned"
      using objects_get_index_result[of ?P subs] by blast
    then show ?thesis
    proof cases
      case found
      have "length (snd ?post) = length subs"
      proof (cases "to_python ?raw")
        case (Inl msgs)
        with Inr found show ?thesis
          by (simp add: BaseTemplateSubscriptionView_post_def Let_def)
      next
        case (Inr b)
        with \<open>?tpl = Inr template\<close> found show ?thesis
          by (simp add: BaseTemplateSubscriptionView_post_def Let_def)
      qed
      with grow show ?thesis by simp
    next
      case none
      then have no: "\<forall>r \<in> set subs. \<not> ?P r" by (rule objects_get_index_DoesNotExist)
      show ?thesis
      proof (cases "subscription_full_clean oe subs (t_id template)
                      (req_POST rq ''subscriber'') ?raw")
        case (Inl msgs)
        with Inr none have "snd ?post = subs"
          by (simp add: BaseTemplateSubscriptionView_post_def Let_def)
        with grow show ?thesis by simp
      next
        case (Inr n)
        then have n: "ts_template n = t_id template"
          "ts_subscriber n = req_POST rq ''subscriber''"
          "to_python ?raw = Inr (ts_subscribe n)"
          by (simp_all add: subscription_full_clean_row)
        from \<open>?tpl = Inr template\<close> none Inr
        have res: "?post = (Inr \<lparr>api_status = 200, api_data = JNull\<rparr>, subs @ [n])"
          by (simp add: BaseTemplateSubscriptionView_post_def Let_def Response_def)
        show ?thesis
        proof (intro exI conjI)
          show "req_POST rq ''template'' = Some (t_id template)" using pk(1) tpl(2) by simp
          show "template \<in> set tpls" by (rule tpl(1))
          show "\<forall>r \<in> set subs. \<not> ?P r" by (rule no)
          show "ts_template n = t_id template" by (rule n(1))
          show "ts_subscriber n = req_POST rq ''subscriber''" by (rule n(2))
          show "to_python ?raw = Inr (ts_subscribe n)" by (rule n(3))
          show "?post = (Inr \<lparr>api_status = 200, api_data = JNull\<rparr>, subs @ [n])" by (rule res)
        qed
      qed
    next
      case many
      with Inr have "snd ?post = subs"
        by (simp add: BaseTemplateSubscriptionView_post_def Let_def)
      with grow show ?thesis by simp
    qed
  qed
qed

theorem subscription_upsert_witness:
  "BaseTemplateSubscriptionView_post (\<lambda>subs t s. []) [ex_public] [ex_subscribed] ex_post_subscribe =
     (Inr \<lparr>api_status = 200, api_data = JNull\<rparr>, [ex_unsubscribed]) \<and>
   BaseTemplateSubscriptionView_post (\<lambda>subs t s. []) [ex_public] [ex_subscribed] ex_post_garbage =
     (Inl (ValidationError [[CHR 0x22] @ ''garbage'' @ [CHR 0x22] @
                            '' value must be either True or False.'']), [ex_subscribed]) \<and>
   BaseTemplateSubscriptionView_post (\<lambda>subs t s. []) [ex_public] [] ex_post_subscribe =
     (Inr \<lparr>api_status = 200, api_data = JNull\<rparr>, [ex_unsubscribed]) \<and>
   one_per_pair (subscription_posts (\<lambda>subs t s. []) [ex_public] []
                   [ex_post_subscribe, ex_post_garbage, ex_post_subscribe])"
  using subscription_upsert [where oe = "\<lambda>subs t s. []" and tpls = "[ex_public]"
          and subs = "[ex_subscribed]" and rq = "ex_post_subscribe"
          and rqs = "[ex_post_subscribe, ex_post_garbage, ex_post_subscribe]" and pk = "''t1''"
          and template = "ex_public" and i = 0 and b = False and msgs = "[]"]
        subscription_upsert [where oe = "\<lambda>subs t s. []" and tpls = "[ex_public]"
          and subs = "[ex_subscribed]" and rq = "ex_post_garbage"
          and rqs = "[]" and pk = "''t1''"
          and template = "ex_public" and i = 0 and b = False
          and msgs = "[[CHR 0x22] @ ''garbage'' @ [CHR 0x22] @
                       '' value must be either True or False.'']"]
        subscription_upsert [where oe = "\<lambda>subs t s. []" and tpls = "[ex_public]"
          and subs = "[]" and rq = "ex_post_subscribe"
          and rqs = "[]" and pk = "''t1''"
          and template = "ex_public" and i = 0 and b = False and msgs = "[]"]
  by (simp add: one_per_pair_def objects_get_def BaseTemplateSubscriptionView_post_def
        objects_get_index_def Response_def to_python_def subscription_full_clean_def)


section \<open>Template API: import of an external template\<close>

lemma save_row_member: "x \<in> set (save_row pk_of rows x)"
proof (cases "pk_of x \<in> set (map pk_of rows)")
  case True
  then obtain r where "r \<in> set rows" "pk_of r = pk_of x" by auto
  then have "x \<in> (\<lambda>r. if pk_of r = pk_of x then x else r) ` set rows"
    by (auto simp: image_iff)
  with True show ?thesis by (simp add: save_row_def)
next
  case False
  then show ?thesis by (simp add: save_row_def)
qed

lemma try_save_template_clean:
  assumes "template_full_clean val db t = None"
  shows "fst (try_save_template val db t url rq) = Inr \<lparr>api_status = 200, api_data = JNull\<rparr> \<and>
         t \<in> set (templates (snd (try_save_template val db t url rq))) \<and>
         tasks (snd (try_save_template val db t url rq)) =
           tasks db @ [\<lparr>task_template_id = t_id t, task_import_url = url,
                         task_subscriber_url = format_opt (wsgi_url_scheme rq) @ ''://'' @ req_host rq,
                         task_subscribe = True\<rparr>]"
  using assms
  by (simp add: try_save_template_def save_template_def Let_def Response_def save_row_member)

lemma try_save_template_invalid:
  assumes "template_full_clean val db t = Some msgs"
  shows "try_save_template val db t url rq =
         (Inr \<lparr>api_status = 500,
               api_data = JObject [(''template_errors'', JArray (map JString msgs))]\<rparr>, db)"
  using assms
  by (simp add: try_save_template_def save_template_def Response_def)

text \<open>
  C8. In the generic branch, and in the vpn branch once the CA, the certificate and the
  VPN have been saved or fetched, the view answers by the validation of the template
  alone: when \<open>full_clean\<close> passes, the template is saved and the answer is 200; when it
  raises \<open>ValidationError\<close>, the answer is 500 with the messages under
  \<open>template_errors\<close> and the template is not saved.
\<close>

theorem create_external_template:
  "(get_remote_template_data (req_POST rq ''url'') = data \<and>
    td_type data \<noteq> ''vpn'' \<and> td_vpn data = None \<and> t = template_model_of data None \<longrightarrow>
      (template_full_clean val db t = None \<longrightarrow>
         fst (BaseCreateTemplateView_post val get_remote_template_data db rq) =
           Inr \<lparr>api_status = 200, api_data = JNull\<rparr> \<and>
         t \<in> set (templates (snd (BaseCreateTemplateView_post val get_remote_template_data db rq)))) \<and>
      (template_full_clean val db t = Some msgs \<longrightarrow>
         BaseCreateTemplateView_post val get_remote_template_data db rq =
           (Inr \<lparr>api_status = 500,
                 api_data = JObject [(''template_errors'', JArray (map JString msgs))]\<rparr>, db))) \<and>
   (get_remote_template_data (req_POST rq ''url'') = data \<and>
    td_type data = ''vpn'' \<and> td_vpn data = Some vd \<and>
    save_or_get_ca val db (vd_ca vd) = Inr (c, dba) \<and>
    save_or_get_cert val dba (cert_model (vd_cert vd) c) = Inr (crt, dbb) \<and>
    save_or_get_vpn val dbb (vpn_model vd c crt) = Inr (v, dbc) \<and>
    t = template_model_of data (Some v) \<longrightarrow>
      (template_full_clean val dbc t = None \<longrightarrow>
         fst (BaseCreateTemplateView_post val get_remote_template_data db rq) =
           Inr \<lparr>api_status = 200, api_data = JNull\<rparr> \<and>
         t \<in> set (templates (snd (BaseCreateTemplateView_post val get_remote_template_data db rq)))) \<and>
      (template_full_clean val dbc t = Some msgs \<longrightarrow>
         BaseCreateTemplateView_post val get_remote_template_data db rq =
           (Inr \<lparr>api_status = 500,
                 api_data = JObject [(''template_errors'', JArray (map JString msgs))]\<rparr>, dbc)))"
proof (intro conjI impI)
  assume h: "get_remote_template_data (req_POST rq ''url'') = data \<and>
    td_type data \<noteq> ''vpn'' \<and> td_vpn data = None \<and> t = template_model_of data None"
  then have post: "BaseCreateTemplateView_post val get_remote_template_data db rq =
      try_save_template val db t (req_POST rq ''url'') rq"
    by (simp add: BaseCreateTemplateView_post_def Let_def)
  {
    assume "template_full_clean val db t = None"
    then show "fst (BaseCreateTemplateView_post val get_remote_template_data db rq) =
           Inr \<lparr>api_status = 200, api_data = JNull\<rparr>"
      and "t \<in> set (templates (snd (BaseCreateTemplateView_post val get_remote_template_data db rq)))"
      unfolding post by (simp_all add: try_save_template_clean)
  }
  {
    assume "template_full_clean val db t = Some msgs"
    then show "BaseCreateTemplateView_post val get_remote_template_data db rq =
           (Inr \<lparr>api_status = 500,
                 api_data = JObject [(''template_errors'', JArray (map JString msgs))]\<rparr>, db)"
      unfolding post by (rule try_save_template_invalid)
  }
next
  assume h: "get_remote_template_data (req_POST rq ''url'') = data \<and>
    td_type data = ''vpn'' \<and> td_vpn data = Some vd \<and>
    save_or_get_ca val db (vd_ca vd) = Inr (c, dba) \<and>
    save_or_get_cert val dba (cert_model (vd_cert vd) c) = Inr (crt, dbb) \<and>
    save_or_get_vpn val dbb (vpn_model vd c crt) = Inr (v, dbc) \<and>
    t = template_model_of data (Some v)"
  then have post: "BaseCreateTemplateView_post val get_remote_template_data db rq =
      try_save_template val dbc t (req_POST rq ''url'') rq"
    by (simp add: BaseCreateTemplateView_post_def Let_def)
  {
    assume "template_full_clean val dbc t = None"
    then show "fst (BaseCreateTemplateView_post val get_remote_template_data db rq) =
           Inr \<lparr>api_status = 200, api_data = JNull\<rparr>"
      and "t \<in> set (templates (snd (BaseCreateTemplateView_post val get_remote_template_data db rq)))"
      unfolding post by (simp_all add: try_save_template_clean)
  }
  {
    assume "template_full_clean val dbc t = Some msgs"
    then show "BaseCreateTemplateView_post val get_remote_template_data db rq =
           (Inr \<lparr>api_status = 500,
                 api_data = JObject [(''template_errors'', JArray (map JString msgs))]\<rparr>, dbc)"
      unfolding post by (rule try_save_template_invalid)
  }
qed

theorem create_external_template_witness:
  "api_http_status (fst (BaseCreateTemplateView_post ex_validation (\<lambda>url. ex_data_generic) ex_db_empty ex_post_import)) = 200 \<and>
   BaseCreateTemplateView_post ex_validation (\<lambda>url. ex_data_generic) ex_db_generic ex_post_import = (Inr \<lparr>api_status = 500, api_data = JObject [(''template_errors'', JArray [JString ''Template with this Id already exists.''])]\<rparr>, ex_db_generic) \<and>
   api_http_status (fst (BaseCreateTemplateView_post ex_validation (\<lambda>url. ex_data_vpn) ex_db_empty ex_post_import)) = 200 \<and>
   BaseCreateTemplateView_post ex_validation (\<lambda>url. ex_data_vpn) ex_db_all ex_post_import = (Inr \<lparr>api_status = 500, api_data = JObject [(''template_errors'', JArray [JString ''Template with this Id already exists.''])]\<rparr>, ex_db_all)"
  using create_external_template [where val = "ex_validation" and get_remote_template_data = "\<lambda>url. ex_data_generic"
          and db = "ex_db_empty" and rq = "ex_post_import" and data = "ex_data_generic" and t = "ex_template_generic"
          and msgs = "[''Template with this Id already exists.'']"]
        create_external_template [where val = "ex_validation" and get_remote_template_data = "\<lambda>url. ex_data_generic"
          and db = "ex_db_generic" and rq = "ex_post_import" and data = "ex_data_generic" and t = "ex_template_generic"
          and msgs = "[''Template with this Id already exists.'']"]
        create_external_template [where val = "ex_validation" and get_remote_template_data = "\<lambda>url. ex_data_vpn"
          and db = "ex_db_empty" and rq = "ex_post_import" and data = "ex_data_vpn" and t = "ex_template_vpn" and vd = "ex_vpn_data"
          and c = "ex_ca" and dba = "ex_db_ca" and crt = "ex_cert" and dbb = "ex_db_cert" and v = "ex_vpn"
          and dbc = "ex_db_vpn" and msgs = "[''Template with this Id already exists.'']"]
        create_external_template [where val = "ex_validation" and get_remote_template_data = "\<lambda>url. ex_data_vpn"
          and db = "ex_db_all" and rq = "ex_post_import" and data = "ex_data_vpn" and t = "ex_template_vpn" and vd = "ex_vpn_data"
          and c = "ex_ca" and dba = "ex_db_all" and crt = "ex_cert" and dbb = "ex_db_all" and v = "ex_vpn"
          and dbc = "ex_db_all" and msgs = "[''Template with this Id already exists.'']"]
  by (simp add: api_http_status_def save_or_get_ca_def save_or_get_cert_def save_or_get_vpn_def
        objects_get_def save_row_def cert_model_def vpn_model_def template_model_of_def)


section \<open>The key field: what its validators accept\<close>

lemma concat_map_if_singleton:
  "concat (map (\<lambda>q. if P q then [q] else []) xs) = filter P xs"
  by (induction xs) simp_all

lemma seq_ends_key_regex:
  "seq_ends key_regex s p =
     (if p = 0
      then filter (\<lambda>q. q = length s \<or> (Suc q = length s \<and> s ! q = CHR 0x0A))
             [1..<Suc (length (takeWhile (\<lambda>c. \<not> key_excluded c) s))]
      else [])"
proof -
  have dollar: "seq_ends [Dollar] s q =
      (if q = length s \<or> (Suc q = length s \<and> s ! q = CHR 0x0A) then [q] else [])" for q
    by simp
  have plus: "seq_ends [PlusNotIn key_excluded, Dollar] s 0 =
      filter (\<lambda>q. q = length s \<or> (Suc q = length s \<and> s ! q = CHR 0x0A))
        [1..<Suc (length (takeWhile (\<lambda>c. \<not> key_excluded c) s))]"
  proof -
    have "seq_ends [PlusNotIn key_excluded, Dollar] s 0 =
        concat (map (seq_ends [Dollar] s)
          [1..<Suc (length (takeWhile (\<lambda>c. \<not> key_excluded c) s))])"
      by (simp add: map_idI)
    also have "\<dots> = concat (map (\<lambda>q. if q = length s \<or> (Suc q = length s \<and> s ! q = CHR 0x0A)
                                       then [q] else [])
          [1..<Suc (length (takeWhile (\<lambda>c. \<not> key_excluded c) s))])"
    proof -
      have "seq_ends [Dollar] s =
          (\<lambda>q. if q = length s \<or> (Suc q = length s \<and> s ! q = CHR 0x0A) then [q] else [])"
        by (rule ext) (rule dollar)
      then show ?thesis by (simp only:)
    qed
    finally show ?thesis by (simp only: concat_map_if_singleton)
  qed
  show ?thesis
  proof (cases "p = 0")
    case True
    then show ?thesis using plus by (simp add: key_regex_def)
  next
    case False
    then show ?thesis by (simp add: key_regex_def)
  qed
qed

lemma regex_search_key_regex:
  "regex_search key_regex s \<longleftrightarrow>
     (\<exists>q. 1 \<le> q \<and> q \<le> length (takeWhile (\<lambda>c. \<not> key_excluded c) s) \<and>
          (q = length s \<or> (Suc q = length s \<and> s ! q = CHR 0x0A)))"
proof -
  have "regex_search key_regex s \<longleftrightarrow> seq_ends key_regex s 0 \<noteq> []"
  proof
    assume "regex_search key_regex s"
    then obtain p where "seq_ends key_regex s p \<noteq> []"
      by (auto simp: regex_search_def list_ex_iff)
    then show "seq_ends key_regex s 0 \<noteq> []"
      by (cases "p = 0") (simp_all add: seq_ends_key_regex)
  next
    assume "seq_ends key_regex s 0 \<noteq> []"
    moreover have "0 \<in> set [0..<Suc (length s)]" by simp
    ultimately show "regex_search key_regex s"
      unfolding regex_search_def list_ex_iff by blast
  qed
  also have "\<dots> \<longleftrightarrow> (\<exists>q. 1 \<le> q \<and> q \<le> length (takeWhile (\<lambda>c. \<not> key_excluded c) s) \<and>
          (q = length s \<or> (Suc q = length s \<and> s ! q = CHR 0x0A)))"
    by (auto simp: seq_ends_key_regex filter_empty_conv)
  finally show ?thesis .
qed

lemma newline_excluded: "key_excluded (CHR 0x0A)"
  by (simp add: key_excluded_def is_whitespace_def)

lemma regex_search_key_regex_iff:
  "regex_search key_regex s \<longleftrightarrow>
     (\<exists>body. body \<noteq> [] \<and> (\<forall>c \<in> set body. \<not> key_excluded c) \<and>
             (s = body \<or> s = body @ newline))"
proof
  let ?ok = "\<lambda>c. \<not> key_excluded c"
  assume "regex_search key_regex s"
  then obtain q where q: "1 \<le> q" "q \<le> length (takeWhile ?ok s)"
    "q = length s \<or> (Suc q = length s \<and> s ! q = CHR 0x0A)"
    unfolding regex_search_key_regex by blast
  let ?body = "take q s"
  have "length (takeWhile ?ok s) \<le> length s" by (rule length_takeWhile_le)
  with q have len: "q \<le> length s" by simp
  have "?body = take q (takeWhile ?ok s)"
    using q(2) by (metis takeWhile_dropWhile_id append_eq_conv_conj take_append take_all min.absorb2 length_take append_Nil2 take_take)
  then have "set ?body \<subseteq> set (takeWhile ?ok s)"
    by (metis set_take_subset)
  then have ok: "\<forall>c \<in> set ?body. ?ok c"
    by (auto dest: set_takeWhileD)
  have ne: "?body \<noteq> []" using q(1) len by auto
  from q(3) have "s = ?body \<or> s = ?body @ newline"
  proof
    assume "q = length s"
    then show ?thesis by simp
  next
    assume h: "Suc q = length s \<and> s ! q = CHR 0x0A"
    then have "take q s @ newline = take q s @ [s ! q]" by (simp add: newline_def)
    also have "\<dots> = take (Suc q) s"
    proof -
      from h have "q < length s" by simp
      then have "take (Suc q) s = take q s @ [s ! q]" by (rule take_Suc_conv_app_nth)
      then show ?thesis by (rule sym)
    qed
    also have "\<dots> = s" by (rule take_all) (use h in simp)
    finally have "s = take q s @ newline" by (rule sym)
    then show ?thesis by (rule disjI2)
  qed
  with ok ne show "\<exists>body. body \<noteq> [] \<and> (\<forall>c \<in> set body. \<not> key_excluded c) \<and>
             (s = body \<or> s = body @ newline)" by blast
next
  let ?ok = "\<lambda>c. \<not> key_excluded c"
  assume "\<exists>body. body \<noteq> [] \<and> (\<forall>c \<in> set body. \<not> key_excluded c) \<and>
             (s = body \<or> s = body @ newline)"
  then obtain body where b: "body \<noteq> []" "\<forall>c \<in> set body. ?ok c"
    "s = body \<or> s = body @ newline" by blast
  from b(3) show "regex_search key_regex s"
  proof
    assume s: "s = body"
    with b(2) have "takeWhile ?ok s = s" by (simp add: takeWhile_eq_all_conv)
    then have tw: "length (takeWhile ?ok s) = length s" by (rule arg_cong)
    from b(1) s have "0 < length s" by simp
    then have "1 \<le> length s" by (simp add: Suc_le_eq)
    with tw have "1 \<le> length s \<and> length s \<le> length (takeWhile ?ok s) \<and>
        (length s = length s \<or> (Suc (length s) = length s \<and> s ! length s = CHR 0x0A))"
      by simp
    then show ?thesis
      unfolding regex_search_key_regex by (rule exI)
  next
    assume s: "s = body @ newline"
    with b(2) have "takeWhile ?ok s = body"
      by (simp add: newline_def takeWhile_append2 newline_excluded)
    then have tw: "length (takeWhile ?ok s) = length body" by (rule arg_cong)
    from b(1) have "0 < length body" by simp
    then have one: "1 \<le> length body" by (simp add: Suc_le_eq)
    from s have len: "Suc (length body) = length s" by (simp add: newline_def)
    from s have last: "s ! length body = CHR 0x0A" by (simp add: newline_def)
    from tw one len last have "1 \<le> length body \<and> length body \<le> length (takeWhile ?ok s) \<and>
        (length body = length s \<or> (Suc (length body) = length s \<and> s ! length body = CHR 0x0A))"
      by simp
    then show ?thesis
      unfolding regex_search_key_regex by (rule exI)
  qed
qed

lemma key_field_accepts_iff:
  "key_field_errors k = [] \<longleftrightarrow>
     k = [] \<or> (length k \<le> 64 \<and>
       (\<exists>body. body \<noteq> [] \<and> (\<forall>c \<in> set body. \<not> key_excluded c) \<and>
               (k = body \<or> k = body @ newline)))"
  unfolding regex_search_key_regex_iff [symmetric]
  by (simp add: key_field_errors_def)

text \<open>
  C9. Every stored device key is to be a non-empty string of at most 64 characters with
  no whitespace, dot or slash. The validators of the field do not keep whitespace out:
  the key \<open>abc\<close> followed by a newline has four characters and raises no validation
  error, since \<open>$\<close> also matches just before a final newline, and its last character
  is whitespace.
\<close>

theorem key_field_accepts_trailing_newline:
  "key_field_errors (''abc'' @ newline) = [] \<and>
   length (''abc'' @ newline) = 4 \<and>
   is_whitespace (last (''abc'' @ newline))"
  by (simp add: key_field_errors_def regex_search_def key_regex_def key_excluded_def
        is_whitespace_def newline_def)


section \<open>Controller: registration\<close>

lemma hex_not_Nil: "hex n \<noteq> []"
  by (subst hex.simps) simp

lemma hex_digit_inj:
  assumes "d < 16" and "e < 16" and "hex_digit d = hex_digit e"
  shows "d = e"
proof -
  have "distinct ''0123456789abcdef''" by simp
  moreover have "d < length ''0123456789abcdef''" "e < length ''0123456789abcdef''"
    using assms(1,2) by simp_all
  ultimately have "(''0123456789abcdef'' ! d = ''0123456789abcdef'' ! e) = (d = e)"
    by (rule nth_eq_iff_index_eq)
  with assms(3) show ?thesis by (simp add: hex_digit_def)
qed

lemma hex_inj: "hex m = hex n \<Longrightarrow> m = n"
proof (induction m arbitrary: n rule: hex.induct)
  case (1 m)
  show ?case
  proof (cases "m < 16")
    case small_m: True
    show ?thesis
    proof (cases "n < 16")
      case True
      with small_m "1.prems" have "hex_digit m = hex_digit n"
        by (simp add: hex.simps [of m] hex.simps [of n])
      with small_m True show ?thesis by (rule hex_digit_inj)
    next
      case False
      with small_m "1.prems" have "[hex_digit m] = hex (n div 16) @ [hex_digit (n mod 16)]"
        by (simp add: hex.simps [of m] hex.simps [of n])
      then have "hex (n div 16) = []" by simp
      then show ?thesis by (simp add: hex_not_Nil)
    qed
  next
    case big_m: False
    show ?thesis
    proof (cases "n < 16")
      case True
      with big_m "1.prems" have "hex (m div 16) @ [hex_digit (m mod 16)] = [hex_digit n]"
        by (simp add: hex.simps [of m] hex.simps [of n])
      then have "hex (m div 16) = []" by simp
      then show ?thesis by (simp add: hex_not_Nil)
    next
      case False
      with big_m "1.prems"
      have "hex (m div 16) @ [hex_digit (m mod 16)] = hex (n div 16) @ [hex_digit (n mod 16)]"
        by (simp add: hex.simps [of m] hex.simps [of n])
      then have eq: "hex (m div 16) = hex (n div 16)" "hex_digit (m mod 16) = hex_digit (n mod 16)"
        by simp_all
      from big_m eq(1) have q: "m div 16 = n div 16" by (rule "1.IH")
      have "m mod 16 < 16" "n mod 16 < 16" by simp_all
      then have r: "m mod 16 = n mod 16" using eq(2) by (rule hex_digit_inj)
      have "m = 16 * (m div 16) + m mod 16" by simp
      also have "\<dots> = 16 * (n div 16) + n mod 16" using q r by simp
      also have "\<dots> = n" by simp
      finally show ?thesis .
    qed
  qed
qed

lemma hex_chars: "set (hex n) \<subseteq> set ''0123456789abcdef''"
proof (induction n rule: hex.induct)
  case (1 n)
  have digit: "hex_digit d \<in> set ''0123456789abcdef''" if "d < 16" for d
  proof -
    from that have "d < length ''0123456789abcdef''" by simp
    then have "''0123456789abcdef'' ! d \<in> set ''0123456789abcdef''" by (rule nth_mem)
    then show ?thesis by (simp only: hex_digit_def)
  qed
  show ?case
  proof (cases "n < 16")
    case True
    then have "hex n = [hex_digit n]" by (simp add: hex.simps [of n])
    with digit [OF True] show ?thesis by simp
  next
    case False
    then have "hex n = hex (n div 16) @ [hex_digit (n mod 16)]" by (simp add: hex.simps [of n])
    moreover have "hex_digit (n mod 16) \<in> set ''0123456789abcdef''" by (rule digit) simp
    moreover have "set (hex (n div 16)) \<subseteq> set ''0123456789abcdef''" using False by (rule "1.IH")
    ultimately show ?thesis by simp
  qed
qed

lemma hex_length: "n < 16 ^ k \<Longrightarrow> 0 < k \<Longrightarrow> length (hex n) \<le> k"
proof (induction n arbitrary: k rule: hex.induct)
  case (1 n)
  show ?case
  proof (cases "n < 16")
    case True
    then have "length (hex n) = 1" by (simp add: hex.simps [of n])
    with "1.prems"(2) show ?thesis by simp
  next
    case False
    from "1.prems"(2) obtain j where k: "k = Suc j" by (cases k) simp_all
    with "1.prems"(1) have "n < 16 ^ j * 16" by simp
    then have small: "n div 16 < 16 ^ j" by (rule less_mult_imp_div_less)
    have "0 < j"
    proof (rule ccontr)
      assume "\<not> 0 < j"
      with k "1.prems"(1) have "n < 16" by simp
      with False show False by simp
    qed
    with False small have "length (hex (n div 16)) \<le> j" by (rule "1.IH")
    moreover from False have "hex n = hex (n div 16) @ [hex_digit (n mod 16)]"
      by (simp add: hex.simps [of n])
    ultimately show ?thesis using k by simp
  qed
qed

lemma find_SomeD: "find P xs = Some x \<Longrightarrow> P x \<and> x \<in> set xs"
  by (induction xs) (auto split: if_splits)

lemma some_numeral_unused: "\<exists>k \<in> set (map hex [0..<Suc (length used)]). k \<notin> set used"
proof (rule ccontr)
  assume "\<not> (\<exists>k \<in> set (map hex [0..<Suc (length used)]). k \<notin> set used)"
  then have "\<forall>k \<in> hex ` {0..<Suc (length used)}. k \<in> set used"
    unfolding set_map set_upt by blast
  then have sub: "hex ` {0..<Suc (length used)} \<subseteq> set used" by blast
  have "inj_on hex {0..<Suc (length used)}"
    by (rule inj_onI) (rule hex_inj)
  then have "card (hex ` {0..<Suc (length used)}) = Suc (length used)"
    by (simp add: card_image)
  moreover have "card (hex ` {0..<Suc (length used)}) \<le> card (set used)"
    using sub by (intro card_mono) simp_all
  moreover have "card (set used) \<le> length used" by (rule card_length)
  ultimately show False by simp
qed

lemma first_unused_numeral:
  "\<exists>j \<le> length used. first_unused used = hex j \<and> hex j \<notin> set used"
proof -
  let ?cands = "map hex [0..<Suc (length used)]"
  from some_numeral_unused [of used] have "find (\<lambda>k. k \<notin> set used) ?cands \<noteq> None"
    unfolding find_None_iff by blast
  then obtain k where k: "find (\<lambda>k. k \<notin> set used) ?cands = Some k" by blast
  from find_SomeD [OF k] have unused: "k \<notin> set used" and "k \<in> set ?cands" by blast+
  from this(2) have "k \<in> hex ` {0..<Suc (length used)}"
    unfolding set_map set_upt .
  then obtain j where "j < Suc (length used)" "k = hex j" by auto
  with unused have "j \<le> length used" "k = hex j" "hex j \<notin> set used" by simp_all
  moreover from k have "first_unused used = k" by (simp add: first_unused_def)
  ultimately show ?thesis by blast
qed

lemma first_unused_fresh: "first_unused used \<notin> set used"
  using first_unused_numeral [of used] by auto

lemma hex_chars_allowed: "\<forall>c \<in> set (hex n). \<not> key_excluded c"
proof -
  have "\<forall>c \<in> set ''0123456789abcdef''. \<not> key_excluded c"
    by (simp add: key_excluded_def is_whitespace_def)
  with hex_chars [of n] show ?thesis by blast
qed

lemma first_unused_valid:
  assumes "length used < 16 ^ 64"
  shows "key_field_errors (first_unused used) = []"
proof -
  from first_unused_numeral [of used] obtain j where j: "j \<le> length used"
    "first_unused used = hex j" by blast
  with assms have "j < 16 ^ 64" by simp
  then have len: "length (hex j) \<le> 64" by (rule hex_length) simp
  have "regex_search key_regex (hex j)"
    unfolding regex_search_key_regex_iff
    using hex_not_Nil [of j] hex_chars_allowed [of j] by blast
  with len j(2) show ?thesis by (simp add: key_field_errors_def)
qed

lemma Config_objects_create_succeeds:
  "Config_objects_create reg name backend =
     (let uuid = first_unused (map d_id (devices reg) @ map c_id (configs reg));
          key = first_unused (map d_key (devices reg) @ map c_key (configs reg))
      in Inr (\<lparr>c_id = uuid, c_name = name, c_backend = backend, c_key = key,
                c_status = ''modified''\<rparr>,
              reg\<lparr>devices := devices reg @ [\<lparr>d_id = uuid, d_name = name, d_key = key\<rparr>],
                  configs := configs reg @ [\<lparr>c_id = uuid, c_name = name, c_backend = backend,
                                             c_key = key, c_status = ''modified''\<rparr>]\<rparr>))"
proof -
  have "first_unused (map d_id (devices reg) @ map c_id (configs reg))
          \<notin> set (map d_id (devices reg) @ map c_id (configs reg))"
    by (rule first_unused_fresh)
  moreover have "first_unused (map d_key (devices reg) @ map c_key (configs reg))
          \<notin> set (map d_key (devices reg) @ map c_key (configs reg))"
    by (rule first_unused_fresh)
  ultimately show ?thesis
    unfolding Config_objects_create_def Let_def by (simp only: if_False simp_thms)
qed

text \<open>
  C2. The register view is defined exactly when registration is enabled. Then every POST
  with the shared secret, a name and a backend among the configured ones stores a new
  device with that name and its new configuration with that backend and the status
  modified, both under a generated identity and key that no stored device or
  configuration has, and answers 201 with the plain text that gives the identity and the
  key. The generated key passes the validators of the key field as long as fewer than
  \<open>16 ^ 64\<close> keys are stored.
\<close>

theorem registration:
  "(register_view st \<noteq> None \<longleftrightarrow> REGISTRATION_ENABLED st) \<and>
   (REGISTRATION_ENABLED st \<and> req_method rq = ''POST'' \<and>
    req_POST rq ''secret'' = Some (SHARED_SECRET st) \<and>
    req_POST rq ''name'' = Some name \<and>
    req_POST rq ''backend'' = Some backend \<and> backend \<in> fst ` set (BACKENDS st) \<longrightarrow>
    register_view st = Some (register st) \<and>
    (let ids = map d_id (devices reg) @ map c_id (configs reg);
         keys = map d_key (devices reg) @ map c_key (configs reg);
         uuid = first_unused ids;
         key = first_unused keys
     in register st reg rq =
          (Inr \<lparr>status_code = 201, content_type = ''text/plain'',
                content = ''registration-result: success'' @ newline @
                          ''uuid: '' @ uuid @ newline @ ''key: '' @ key @ newline\<rparr>,
           reg\<lparr>devices := devices reg @ [\<lparr>d_id = uuid, d_name = name, d_key = key\<rparr>],
               configs := configs reg @ [\<lparr>c_id = uuid, c_name = name, c_backend = backend,
                                          c_key = key, c_status = ''modified''\<rparr>]\<rparr>) \<and>
        uuid \<notin> set ids \<and> key \<notin> set keys \<and>
        (length keys < 16 ^ 64 \<longrightarrow> key_field_errors key = [])))"
proof (intro conjI impI)
  show "register_view st \<noteq> None \<longleftrightarrow> REGISTRATION_ENABLED st"
    by (simp add: register_view_def)
next
  assume h: "REGISTRATION_ENABLED st \<and> req_method rq = ''POST'' \<and>
    req_POST rq ''secret'' = Some (SHARED_SECRET st) \<and>
    req_POST rq ''name'' = Some name \<and>
    req_POST rq ''backend'' = Some backend \<and> backend \<in> fst ` set (BACKENDS st)"
  then show "register_view st = Some (register st)"
    by (simp add: register_view_def)
  let ?ids = "map d_id (devices reg) @ map c_id (configs reg)"
  let ?keys = "map d_key (devices reg) @ map c_key (configs reg)"
  let ?ps = "[(''secret'', Exactly (SHARED_SECRET st)), (''name'', AnyValue),
              (''backend'', OneOf (map fst (BACKENDS st)))]"
  have ok: "check_required_params (req_POST rq) ?ps = None"
    unfolding check_required_params_None_iff using h by auto
  have res: "register st reg rq =
      (Inr \<lparr>status_code = 201, content_type = ''text/plain'',
            content = ''registration-result: success'' @ newline @
                      ''uuid: '' @ first_unused ?ids @ newline @
                      ''key: '' @ first_unused ?keys @ newline\<rparr>,
       reg\<lparr>devices := devices reg @
               [\<lparr>d_id = first_unused ?ids, d_name = name, d_key = first_unused ?keys\<rparr>],
           configs := configs reg @
               [\<lparr>c_id = first_unused ?ids, c_name = name, c_backend = backend,
                 c_key = first_unused ?keys, c_status = ''modified''\<rparr>]\<rparr>)"
    using h ok
    by (simp add: register_def Let_def ControllerResponse_def Config_objects_create_succeeds)
  have fresh: "first_unused ?ids \<notin> set ?ids" "first_unused ?keys \<notin> set ?keys"
    by (rule first_unused_fresh)+
  have valid: "length ?keys < 16 ^ 64 \<longrightarrow> key_field_errors (first_unused ?keys) = []"
    by (rule impI) (rule first_unused_valid)
  show "let ids = ?ids; keys = ?keys; uuid = first_unused ids; key = first_unused keys
     in register st reg rq =
          (Inr \<lparr>status_code = 201, content_type = ''text/plain'',
                content = ''registration-result: success'' @ newline @
                          ''uuid: '' @ uuid @ newline @ ''key: '' @ key @ newline\<rparr>,
           reg\<lparr>devices := devices reg @ [\<lparr>d_id = uuid, d_name = name, d_key = key\<rparr>],
               configs := configs reg @ [\<lparr>c_id = uuid, c_name = name, c_backend = backend,
                                          c_key = key, c_status = ''modified''\<rparr>]\<rparr>) \<and>
        uuid \<notin> set ids \<and> key \<notin> set keys \<and>
        (length keys < 16 ^ 64 \<longrightarrow> key_field_errors key = [])"
    unfolding Let_def using res fresh valid by (intro conjI)
qed

theorem registration_witness:
  "register_view ex_settings = Some (register ex_settings) \<and>
   register ex_settings ex_registry ex_post_register =
     (Inr \<lparr>status_code = 201, content_type = ''text/plain'',
           content = ''registration-result: success'' @ newline @
                     ''uuid: 1'' @ newline @ ''key: 0'' @ newline\<rparr>,
      \<lparr>devices = [\<lparr>d_id = ''0'', d_name = ''ap1'', d_key = ''1''\<rparr>,
                  \<lparr>d_id = ''1'', d_name = ''ap2'', d_key = ''0''\<rparr>],
       configs = [\<lparr>c_id = ''0'', c_name = ''ap1'', c_backend = ''netjsonconfig.OpenWrt'',
                   c_key = ''1'', c_status = ''applied''\<rparr>,
                  \<lparr>c_id = ''1'', c_name = ''ap2'', c_backend = ''netjsonconfig.OpenWrt'',
                   c_key = ''0'', c_status = ''modified''\<rparr>]\<rparr>) \<and>
   key_field_errors ''0'' = []"
proof -
  have ids: "first_unused [''0'', ''0''] = ''1''" by code_simp
  have keys: "first_unused [''1'', ''1''] = ''0''" by code_simp
  have valid: "key_field_errors ''0'' = []" by code_simp
  show ?thesis
    using registration [where st = "ex_settings" and rq = "ex_post_register"
            and name = "''ap2''" and backend = "''netjsonconfig.OpenWrt''"
            and reg = "ex_registry"]
    by (simp add: ids keys valid Let_def)
qed

end
